theory Spec2Isabelle
  imports Main "HOL-Library.Word"
begin

section \<open>node-cgi-handler: the FastCGI engine, the CGI decoder and the response encoders\<close>

text \<open>
  The development embeds three source files of the package:
  \<^item> \<^verbatim>\<open>fastcgi.js\<close>: the record codec (\<^verbatim>\<open>parseHeader\<close>, \<^verbatim>\<open>buildHeader\<close>,
    \<^verbatim>\<open>buildEndRequest\<close>, \<^verbatim>\<open>buildStreamRecord\<close>, \<^verbatim>\<open>parseNameValuePairs\<close>), the classes
    \<^verbatim>\<open>FCGIRequest\<close> and \<^verbatim>\<open>FCGIResponse\<close>, and the connection handling of
    \<^verbatim>\<open>FastCGIServer\<close>;
  \<^item> \<^verbatim>\<open>cgi.js\<close>: \<^verbatim>\<open>parseHeaders\<close>, \<^verbatim>\<open>parseQueryString\<close>, \<^verbatim>\<open>parseCookies\<close> and the part of
    \<^verbatim>\<open>parseCGIEnv\<close> that calls them;
  \<^item> \<^verbatim>\<open>response.js\<close>: the class \<^verbatim>\<open>Response\<close>.

  Conventions of the embedding.
  \<^item> A \<^verbatim>\<open>Buffer\<close> is a list of bytes (\<open>8 word\<close>).
  \<^item> A JavaScript string is represented by the bytes of its UTF-8 encoding, as a
    \<open>string\<close>. \<^verbatim>\<open>Buffer.from(s)\<close> and \<^verbatim>\<open>buf.toString('utf8')\<close> are then the two
    directions of the bijection between \<open>char\<close> and \<open>8 word\<close>, and
    \<^verbatim>\<open>Buffer.byteLength(s)\<close> is the length. This is exact for well-formed text (Node
    replaces ill-formed UTF-8 by U+FFFD when it decodes, and so does
    \<^verbatim>\<open>URLSearchParams\<close> after it resolved the escapes); case mapping and trimming are
    the ASCII ones (\<^verbatim>\<open>trim\<close> also strips the white space outside ASCII, such as U+00A0:
    the texts trimmed are taken to hold none at their ends).
  \<^item> An object used as a dictionary is an association list of its own properties in
    insertion order, which is the order of \<^verbatim>\<open>Object.entries\<close> for names that are not
    array indices. Property names are taken not to name a member of
    \<^verbatim>\<open>Object.prototype\<close> (\<^verbatim>\<open>__proto__\<close>, \<^verbatim>\<open>constructor\<close>, \<^verbatim>\<open>toString\<close> and the
    like), which a lookup on a plain object would find by inheritance.
  \<^item> A number is a natural number wherever the code holds a length, a status code or
    an identifier; the range checks of the \<^verbatim>\<open>Buffer\<close> writers are written out.
  \<^item> A \<^verbatim>\<open>throw\<close> is the left summand of the result, together with the state the
    object is left in; a method that returns \<^verbatim>\<open>this\<close> returns the updated state.
  \<^item> A stream that is written to (\<^verbatim>\<open>socket\<close>, \<^verbatim>\<open>stdout\<close>) is the list of the
    buffers passed to its \<^verbatim>\<open>write\<close>, oldest first.
\<close>

subsection \<open>Values of the platform\<close>

type_synonym byte = "8 word"

datatype js_error = Error string | TypeError | RangeError | URIError

type_synonym 'a result = "(js_error \<times> 'a) + 'a"

text \<open>\<^verbatim>\<open>Buffer.from(str)\<close> and \<^verbatim>\<open>buf.toString('utf8')\<close>.\<close>

definition Buffer_from :: "string \<Rightarrow> byte list" where
  "Buffer_from s = map of_char s"

definition toString_utf8 :: "byte list \<Rightarrow> string" where
  "toString_utf8 b = map (\<lambda>x. char_of (unat x)) b"

text \<open>The decimal digits of a number, as a template literal prints it.\<close>

fun show_nat :: "nat \<Rightarrow> string" where
  "show_nat n =
     (if n < 10 then [char_of (48 + n)]
      else show_nat (n div 10) @ [char_of (48 + n mod 10)])"

declare show_nat.simps [simp del]

text \<open>
  What a chunk handed to \<^verbatim>\<open>write\<close> can be: a string, a \<^verbatim>\<open>Buffer\<close>, or any other
  value, given by what \<^verbatim>\<open>String(chunk)\<close> yields. \<^verbatim>\<open>undefined\<close> is \<open>None\<close> of
  \<open>chunk option\<close>.
\<close>

datatype chunk = Str string | Buf "byte list" | Other string

text \<open>
  The outcome of \<^verbatim>\<open>JSON.stringify(data)\<close>: a string, \<^verbatim>\<open>undefined\<close> (for
  \<^verbatim>\<open>undefined\<close>, a function or a symbol), or a \<^verbatim>\<open>TypeError\<close> (a cyclic structure, a
  BigInt).
\<close>

datatype stringified = JSON_text string | JSON_undefined | JSON_throws

text \<open>The value of a header: a string, a number, or an array of strings.\<close>

datatype hval = HStr string | HNum nat | HArr "string list"

fun join_with :: "string \<Rightarrow> string list \<Rightarrow> string" where
  "join_with sep [] = []"
| "join_with sep [x] = x"
| "join_with sep (x # y # ys) = x @ sep @ join_with sep (y # ys)"

text \<open>\<^verbatim>\<open>`${value}`\<close>: an array prints its elements joined by commas.\<close>

fun template_hval :: "hval \<Rightarrow> string" where
  "template_hval (HStr s) = s"
| "template_hval (HNum n) = show_nat n"
| "template_hval (HArr xs) = join_with '','' xs"

text \<open>Truthiness, as \<^verbatim>\<open>!value\<close> tests it; \<open>None\<close> is \<^verbatim>\<open>undefined\<close>.\<close>

fun truthy :: "hval option \<Rightarrow> bool" where
  "truthy None = False"
| "truthy (Some (HStr s)) = (s \<noteq> [])"
| "truthy (Some (HNum n)) = (n \<noteq> 0)"
| "truthy (Some (HArr xs)) = True"

text \<open>
  \<^verbatim>\<open>encodeURIComponent(s)\<close>: letters, digits and \<^verbatim>\<open>- _ . ! ~ * ' ( )\<close> stay, every other
  byte of the UTF-8 encoding becomes \<^verbatim>\<open>%XX\<close> with upper-case digits.
\<close>

definition unreserved :: "char \<Rightarrow> bool" where
  "unreserved c =
     (let n = (of_char c :: nat)
      in (48 \<le> n \<and> n \<le> 57) \<or> (65 \<le> n \<and> n \<le> 90) \<or> (97 \<le> n \<and> n \<le> 122) \<or>
         c \<in> set ''-_.!~*'()'')"

definition hex_digit :: "nat \<Rightarrow> char" where
  "hex_digit d = (if d < 10 then char_of (48 + d) else char_of (55 + d))"

definition encodeURIComponent :: "string \<Rightarrow> string" where
  "encodeURIComponent s =
     concat (map (\<lambda>c. if unreserved c then [c]
                        else [CHR ''%'', hex_digit (of_char c div 16), hex_digit (of_char c mod 16)])
                 s)"

text \<open>
  The options of \<^verbatim>\<open>cookie\<close>; \<open>None\<close> is a property that is absent. \<open>expires\<close> holds
  what \<^verbatim>\<open>toUTCString()\<close> gives for the date.
\<close>

record cookie_options =
  maxAge :: "nat option"
  expires :: "string option"
  path :: "string option"
  domain :: "string option"
  secure :: bool
  httpOnly :: bool
  sameSite :: "string option"

text \<open>An attribute that is added when the option is truthy: a string that is not empty,
  a number other than 0.\<close>

definition string_attr :: "string \<Rightarrow> string option \<Rightarrow> string" where
  "string_attr label opt =
     (case opt of None \<Rightarrow> [] | Some v \<Rightarrow> if v = [] then [] else ''; '' @ label @ ''='' @ v)"

definition maxAge_attr :: "nat option \<Rightarrow> string" where
  "maxAge_attr opt =
     (case opt of None \<Rightarrow> [] | Some n \<Rightarrow> if n = 0 then [] else ''; Max-Age='' @ show_nat n)"

definition flag_attr :: "string \<Rightarrow> bool \<Rightarrow> string" where
  "flag_attr label on = (if on then ''; '' @ label else [])"

subsection \<open>Objects as dictionaries\<close>

type_synonym 'v js_object = "(string \<times> 'v) list"

text \<open>\<^verbatim>\<open>obj[name]\<close> on own properties, and \<^verbatim>\<open>obj[name] = value\<close>: an existing name keeps
  its place, a new one goes last.\<close>

definition get_prop :: "'v js_object \<Rightarrow> string \<Rightarrow> 'v option" where
  "get_prop obj name = map_of obj name"

fun set_prop :: "'v js_object \<Rightarrow> string \<Rightarrow> 'v \<Rightarrow> 'v js_object" where
  "set_prop [] name v = [(name, v)]"
| "set_prop ((k, w) # rest) name v =
     (if k = name then (k, v) # rest else (k, w) # set_prop rest name v)"

text \<open>\<^verbatim>\<open>Object.assign(target, source)\<close>.\<close>

fun Object_assign :: "'v js_object \<Rightarrow> 'v js_object \<Rightarrow> 'v js_object" where
  "Object_assign target [] = target"
| "Object_assign target ((k, v) # rest) = Object_assign (set_prop target k v) rest"

subsection \<open>The record codec of \<^verbatim>\<open>fastcgi.js\<close>\<close>

definition FCGI_BEGIN_REQUEST :: nat where "FCGI_BEGIN_REQUEST = 1"
definition FCGI_ABORT_REQUEST :: nat where "FCGI_ABORT_REQUEST = 2"
definition FCGI_END_REQUEST :: nat where "FCGI_END_REQUEST = 3"
definition FCGI_PARAMS :: nat where "FCGI_PARAMS = 4"
definition FCGI_STDIN :: nat where "FCGI_STDIN = 5"
definition FCGI_STDOUT :: nat where "FCGI_STDOUT = 6"
definition FCGI_GET_VALUES :: nat where "FCGI_GET_VALUES = 9"
definition FCGI_GET_VALUES_RESULT :: nat where "FCGI_GET_VALUES_RESULT = 10"
definition FCGI_RESPONDER :: nat where "FCGI_RESPONDER = 1"
definition FCGI_REQUEST_COMPLETE :: nat where "FCGI_REQUEST_COMPLETE = 0"
definition FCGI_UNKNOWN_ROLE :: nat where "FCGI_UNKNOWN_ROLE = 3"
definition FCGI_HEADER_LEN :: nat where "FCGI_HEADER_LEN = 8"
definition FCGI_VERSION_1 :: nat where "FCGI_VERSION_1 = 1"

text \<open>
  \<^verbatim>\<open>buildHeader(type, requestId, contentLength, paddingLength)\<close>. The writers
  \<^verbatim>\<open>writeUInt8\<close> and \<^verbatim>\<open>writeUInt16BE\<close> throw a \<^verbatim>\<open>RangeError\<close> on a value that does
  not fit.
\<close>

definition buildHeader :: "nat \<Rightarrow> nat \<Rightarrow> nat \<Rightarrow> nat \<Rightarrow> js_error + byte list" where
  "buildHeader type requestId contentLength paddingLength =
     (if 255 < type \<or> 65535 < requestId \<or> 65535 < contentLength \<or> 255 < paddingLength
      then Inl RangeError
      else Inr [of_nat FCGI_VERSION_1, of_nat type,
                of_nat (requestId div 256), of_nat (requestId mod 256),
                of_nat (contentLength div 256), of_nat (contentLength mod 256),
                of_nat paddingLength, 0])"

text \<open>\<^verbatim>\<open>buildEndRequest(requestId, appStatus, protocolStatus)\<close>: a header announcing 8
  bytes, the application status on 4 bytes, the protocol status, 3 reserved bytes.\<close>

definition buildEndRequest :: "nat \<Rightarrow> nat \<Rightarrow> nat \<Rightarrow> js_error + byte list" where
  "buildEndRequest requestId appStatus protocolStatus =
     (case buildHeader FCGI_END_REQUEST requestId 8 0 of
        Inl e \<Rightarrow> Inl e
      | Inr header \<Rightarrow>
          if 4294967295 < appStatus \<or> 255 < protocolStatus then Inl RangeError
          else Inr (header @
                 [of_nat (appStatus div 16777216), of_nat (appStatus div 65536 mod 256),
                  of_nat (appStatus div 256 mod 256), of_nat (appStatus mod 256),
                  of_nat protocolStatus, 0, 0, 0]))"

text \<open>
  \<^verbatim>\<open>buildStreamRecord(type, requestId, data)\<close>: the \<^verbatim>\<open>while (offset < data.length)\<close>
  loop, with the array \<^verbatim>\<open>chunks\<close> as accumulator, and \<^verbatim>\<open>Buffer.concat\<close> at the end.
\<close>

function buildStreamRecord_loop ::
  "nat \<Rightarrow> nat \<Rightarrow> byte list \<Rightarrow> nat \<Rightarrow> byte list list \<Rightarrow> js_error + byte list list" where
  "buildStreamRecord_loop type requestId data offset chunks =
     (if offset < length data then
        (let chunkSize = min 65535 (length data - offset);
             chunk = take chunkSize (drop offset data);
             paddingLength = (8 - chunkSize mod 8) mod 8;
             padding = replicate paddingLength (0 :: byte)
         in case buildHeader type requestId chunkSize paddingLength of
              Inl e \<Rightarrow> Inl e
            | Inr header \<Rightarrow>
                buildStreamRecord_loop type requestId data (offset + chunkSize)
                  (chunks @ [header, chunk, padding]))
      else Inr chunks)"
  by pat_completeness auto
termination
  by (relation "measure (\<lambda>(type, requestId, data, offset, chunks). length data - offset)") auto

declare buildStreamRecord_loop.simps [simp del]

definition buildStreamRecord :: "nat \<Rightarrow> nat \<Rightarrow> byte list \<Rightarrow> js_error + byte list" where
  "buildStreamRecord type requestId data =
     (case buildStreamRecord_loop type requestId data 0 [] of
        Inl e \<Rightarrow> Inl e
      | Inr chunks \<Rightarrow> Inr (concat chunks))"

subsection \<open>\<^verbatim>\<open>FCGIResponse\<close>\<close>

definition CRLF :: string where
  "CRLF = [CHR 0x0D, CHR 0x0A]"

text \<open>
  The fields that \<^verbatim>\<open>FCGIResponse\<close> and \<^verbatim>\<open>Response\<close> both have
  (\<^verbatim>\<open>_statusCode\<close>, \<^verbatim>\<open>_headers\<close>, \<^verbatim>\<open>_headersSent\<close>, \<^verbatim>\<open>_finished\<close>, \<^verbatim>\<open>_cookies\<close>),
  then the fields of each class.
\<close>

record response_core =
  statusCode :: nat
  headers :: "hval js_object"
  headersSent :: bool
  finished :: bool
  cookies :: "string list"

record fcgi_response = response_core +
  socket :: "byte list list"
  requestId :: nat
  buffer :: "byte list list"

definition FCGIResponse_new :: "byte list list \<Rightarrow> nat \<Rightarrow> fcgi_response" where
  "FCGIResponse_new sock rid =
     \<lparr>statusCode = 200,
      headers = [(''Content-Type'', HStr ''text/html; charset=utf-8'')],
      headersSent = False, finished = False, cookies = [],
      socket = sock, requestId = rid, buffer = []\<rparr>"

definition FCGIResponse_status :: "fcgi_response \<Rightarrow> nat \<Rightarrow> fcgi_response" where
  "FCGIResponse_status r code = r\<lparr>statusCode := code\<rparr>"

definition FCGIResponse_set :: "fcgi_response \<Rightarrow> string \<Rightarrow> hval \<Rightarrow> fcgi_response" where
  "FCGIResponse_set r name v = r\<lparr>headers := set_prop (headers r) name v\<rparr>"

text \<open>\<^verbatim>\<open>set(name)\<close> with an object: \<^verbatim>\<open>Object.assign(this._headers, name)\<close>.\<close>

definition FCGIResponse_set_object :: "fcgi_response \<Rightarrow> hval js_object \<Rightarrow> fcgi_response" where
  "FCGIResponse_set_object r obj = r\<lparr>headers := Object_assign (headers r) obj\<rparr>"

definition FCGIResponse_types :: "string js_object" where
  "FCGIResponse_types =
     [(''html'', ''text/html; charset=utf-8''),
      (''text'', ''text/plain; charset=utf-8''),
      (''json'', ''application/json; charset=utf-8'')]"

text \<open>\<^verbatim>\<open>type(contentType)\<close>: \<^verbatim>\<open>types[contentType] || contentType\<close>; no entry of the
  table is the empty string.\<close>

definition FCGIResponse_type :: "fcgi_response \<Rightarrow> string \<Rightarrow> fcgi_response" where
  "FCGIResponse_type r contentType =
     FCGIResponse_set r ''Content-Type''
       (HStr (case get_prop FCGIResponse_types contentType of
                Some t \<Rightarrow> t
              | None \<Rightarrow> contentType))"

text \<open>\<^verbatim>\<open>cookie(name, value, options)\<close>; this class does not read \<^verbatim>\<open>options.expires\<close>.\<close>

definition FCGIResponse_cookie ::
  "fcgi_response \<Rightarrow> string \<Rightarrow> string \<Rightarrow> cookie_options \<Rightarrow> fcgi_response" where
  "FCGIResponse_cookie r name v options =
     r\<lparr>cookies := cookies r @
          [encodeURIComponent name @ ''='' @ encodeURIComponent v @
           maxAge_attr (maxAge options) @
           string_attr ''Path'' (path options) @
           string_attr ''Domain'' (domain options) @
           flag_attr ''Secure'' (secure options) @
           flag_attr ''HttpOnly'' (httpOnly options) @
           string_attr ''SameSite'' (sameSite options)]\<rparr>"

text \<open>The table \<^verbatim>\<open>STATUS_MESSAGES\<close> local to \<^verbatim>\<open>_buildHeaders\<close>.\<close>

definition FCGI_STATUS_MESSAGES :: "(nat \<times> string) list" where
  "FCGI_STATUS_MESSAGES =
     [(200, ''OK''), (201, ''Created''), (204, ''No Content''),
      (301, ''Moved Permanently''), (302, ''Found''), (304, ''Not Modified''),
      (400, ''Bad Request''), (401, ''Unauthorized''), (403, ''Forbidden''),
      (404, ''Not Found''), (500, ''Internal Server Error'')]"

definition status_line :: "(nat \<times> string) list \<Rightarrow> nat \<Rightarrow> string" where
  "status_line table code =
     ''Status: '' @ show_nat code @ '' '' @
       (case map_of table code of Some m \<Rightarrow> m | None \<Rightarrow> ''Unknown'') @ CRLF"

definition FCGIResponse_buildHeaders :: "fcgi_response \<Rightarrow> byte list" where
  "FCGIResponse_buildHeaders r =
     Buffer_from
       (status_line FCGI_STATUS_MESSAGES (statusCode r) @
        concat (map (\<lambda>(name, v). name @ '': '' @ template_hval v @ CRLF) (headers r)) @
        concat (map (\<lambda>cookie. ''Set-Cookie: '' @ cookie @ CRLF) (cookies r)) @
        CRLF)"

text \<open>\<^verbatim>\<open>write(chunk)\<close>: a chunk that is neither a string nor a \<^verbatim>\<open>Buffer\<close> is not
  pushed.\<close>

definition FCGIResponse_write :: "fcgi_response \<Rightarrow> chunk \<Rightarrow> fcgi_response" where
  "FCGIResponse_write r chunk =
     (let r1 = (if \<not> headersSent r
                then r\<lparr>buffer := buffer r @ [FCGIResponse_buildHeaders r], headersSent := True\<rparr>
                else r)
      in case chunk of
           Str s \<Rightarrow> r1\<lparr>buffer := buffer r1 @ [Buffer_from s]\<rparr>
         | Buf b \<Rightarrow> r1\<lparr>buffer := buffer r1 @ [b]\<rparr>
         | Other s \<Rightarrow> r1)"

text \<open>
  \<^verbatim>\<open>end(data)\<close>. The three \<^verbatim>\<open>socket.write\<close> calls are three entries of \<open>socket\<close>; a
  \<^verbatim>\<open>RangeError\<close> of a record builder leaves the object as it is at that point.
\<close>

definition FCGIResponse_end :: "fcgi_response \<Rightarrow> chunk option \<Rightarrow> fcgi_response result" where
  "FCGIResponse_end r data =
     (if finished r then Inr r
      else
        let r1 = (case data of
                    Some chunk \<Rightarrow> FCGIResponse_write r chunk
                  | None \<Rightarrow>
                      if \<not> headersSent r
                      then r\<lparr>buffer := buffer r @ [FCGIResponse_buildHeaders r],
                             headersSent := True\<rparr>
                      else r);
            fullBody = concat (buffer r1);
            stdoutWritten =
              (if 0 < length fullBody
               then (case buildStreamRecord FCGI_STDOUT (requestId r1) fullBody of
                       Inl e \<Rightarrow> Inl (e, r1)
                     | Inr stdoutRecords \<Rightarrow> Inr (r1\<lparr>socket := socket r1 @ [stdoutRecords]\<rparr>))
               else Inr r1)
        in case stdoutWritten of
             Inl thrown \<Rightarrow> Inl thrown
           | Inr r2 \<Rightarrow>
               (case buildHeader FCGI_STDOUT (requestId r2) 0 0 of
                  Inl e \<Rightarrow> Inl (e, r2)
                | Inr emptyStdout \<Rightarrow>
                    (let r3 = r2\<lparr>socket := socket r2 @ [emptyStdout]\<rparr>
                     in case buildEndRequest (requestId r3) 0 FCGI_REQUEST_COMPLETE of
                          Inl e \<Rightarrow> Inl (e, r3)
                        | Inr endRequest \<Rightarrow>
                            Inr (r3\<lparr>socket := socket r3 @ [endRequest],
                                    finished := True\<rparr>))))"

text \<open>\<^verbatim>\<open>json(data)\<close>, on the outcome of \<^verbatim>\<open>JSON.stringify(data)\<close>, which is evaluated
  after \<^verbatim>\<open>this.type('json')\<close>.\<close>

definition FCGIResponse_json :: "fcgi_response \<Rightarrow> stringified \<Rightarrow> fcgi_response result" where
  "FCGIResponse_json r data =
     (let r1 = FCGIResponse_type r ''json''
      in case data of
           JSON_throws \<Rightarrow> Inl (TypeError, r1)
         | JSON_undefined \<Rightarrow> FCGIResponse_end r1 None
         | JSON_text body \<Rightarrow> FCGIResponse_end r1 (Some (Str body)))"

text \<open>
  A value handed to \<^verbatim>\<open>send\<close>: \<^verbatim>\<open>undefined\<close>, \<^verbatim>\<open>null\<close>, a string, a \<^verbatim>\<open>Buffer\<close>, another
  object (given by the outcome of \<^verbatim>\<open>JSON.stringify\<close> on it), or another primitive
  (given by its \<^verbatim>\<open>String\<close> form and the outcome of \<^verbatim>\<open>JSON.stringify\<close>).
\<close>

datatype js_value =
  Undefined | Null | String string | Buffer "byte list"
  | Object stringified | Primitive string stringified

text \<open>\<^verbatim>\<open>send(body)\<close>: \<^verbatim>\<open>typeof null\<close> is \<^verbatim>\<open>'object'\<close>, and \<^verbatim>\<open>JSON.stringify(null)\<close> is
  \<^verbatim>\<open>'null'\<close>.\<close>

fun FCGIResponse_send :: "fcgi_response \<Rightarrow> js_value \<Rightarrow> fcgi_response result" where
  "FCGIResponse_send r Null = FCGIResponse_json r (JSON_text ''null'')"
| "FCGIResponse_send r (Object data) = FCGIResponse_json r data"
| "FCGIResponse_send r Undefined = FCGIResponse_end r None"
| "FCGIResponse_send r (String s) = FCGIResponse_end r (Some (Str s))"
| "FCGIResponse_send r (Buffer b) = FCGIResponse_end r (Some (Buf b))"
| "FCGIResponse_send r (Primitive s data) = FCGIResponse_end r (Some (Other s))"

definition FCGIResponse_redirect :: "fcgi_response \<Rightarrow> string \<Rightarrow> nat \<Rightarrow> fcgi_response result" where
  "FCGIResponse_redirect r url code =
     FCGIResponse_end (FCGIResponse_set (FCGIResponse_status r code) ''Location'' (HStr url)) None"

subsection \<open>\<^verbatim>\<open>Response\<close> of \<^verbatim>\<open>response.js\<close>\<close>

record response = response_core +
  stdout :: "byte list list"

definition Response_new :: "byte list list \<Rightarrow> response" where
  "Response_new out =
     \<lparr>statusCode = 200,
      headers = [(''Content-Type'', HStr ''text/html; charset=utf-8'')],
      headersSent = False, finished = False, cookies = [],
      stdout = out\<rparr>"

definition Response_status :: "response \<Rightarrow> nat \<Rightarrow> response result" where
  "Response_status r code =
     (if headersSent r then Inl (Error ''Cannot set status after headers sent'', r)
      else Inr (r\<lparr>statusCode := code\<rparr>))"

definition Response_set :: "response \<Rightarrow> string \<Rightarrow> hval \<Rightarrow> response result" where
  "Response_set r name v =
     (if headersSent r then Inl (Error ''Cannot set headers after they are sent'', r)
      else Inr (r\<lparr>headers := set_prop (headers r) name v\<rparr>))"

definition Response_set_object :: "response \<Rightarrow> hval js_object \<Rightarrow> response result" where
  "Response_set_object r obj =
     (if headersSent r then Inl (Error ''Cannot set headers after they are sent'', r)
      else Inr (r\<lparr>headers := Object_assign (headers r) obj\<rparr>))"

definition Response_removeHeader :: "response \<Rightarrow> string \<Rightarrow> response" where
  "Response_removeHeader r name = r\<lparr>headers := filter (\<lambda>(k, v). k \<noteq> name) (headers r)\<rparr>"

definition Response_types :: "string js_object" where
  "Response_types =
     [(''html'', ''text/html; charset=utf-8''),
      (''text'', ''text/plain; charset=utf-8''),
      (''json'', ''application/json; charset=utf-8''),
      (''xml'', ''application/xml; charset=utf-8''),
      (''css'', ''text/css; charset=utf-8''),
      (''js'', ''application/javascript; charset=utf-8'')]"

definition Response_type :: "response \<Rightarrow> string \<Rightarrow> response result" where
  "Response_type r contentType =
     Response_set r ''Content-Type''
       (HStr (case get_prop Response_types contentType of
                Some t \<Rightarrow> t
              | None \<Rightarrow> contentType))"

definition Response_cookie ::
  "response \<Rightarrow> string \<Rightarrow> string \<Rightarrow> cookie_options \<Rightarrow> response result" where
  "Response_cookie r name v options =
     (if headersSent r then Inl (Error ''Cannot set cookie after headers sent'', r)
      else Inr (r\<lparr>cookies := cookies r @
                  [encodeURIComponent name @ ''='' @ encodeURIComponent v @
                   maxAge_attr (maxAge options) @
                   string_attr ''Expires'' (expires options) @
                   string_attr ''Path'' (path options) @
                   string_attr ''Domain'' (domain options) @
                   flag_attr ''Secure'' (secure options) @
                   flag_attr ''HttpOnly'' (httpOnly options) @
                   string_attr ''SameSite'' (sameSite options)]\<rparr>))"

text \<open>\<^verbatim>\<open>clearCookie(name, options)\<close>: the date is \<^verbatim>\<open>new Date(0)\<close>.\<close>

definition Response_clearCookie :: "response \<Rightarrow> string \<Rightarrow> cookie_options \<Rightarrow> response result" where
  "Response_clearCookie r name options =
     Response_cookie r name [] (options\<lparr>expires := Some ''Thu, 01 Jan 1970 00:00:00 GMT''\<rparr>)"

definition STATUS_MESSAGES :: "(nat \<times> string) list" where
  "STATUS_MESSAGES =
     [(200, ''OK''), (201, ''Created''), (204, ''No Content''),
      (301, ''Moved Permanently''), (302, ''Found''), (304, ''Not Modified''),
      (400, ''Bad Request''), (401, ''Unauthorized''), (403, ''Forbidden''),
      (404, ''Not Found''), (405, ''Method Not Allowed''),
      (500, ''Internal Server Error''), (502, ''Bad Gateway''),
      (503, ''Service Unavailable'')]"

text \<open>The lines one header gives: one per element for an array, one otherwise.\<close>

fun header_lines :: "string \<times> hval \<Rightarrow> string list" where
  "header_lines (name, HArr vs) = map (\<lambda>v. name @ '': '' @ v @ CRLF) vs"
| "header_lines (name, v) = [name @ '': '' @ template_hval v @ CRLF]"

text \<open>\<^verbatim>\<open>_writeHeaders()\<close>: every line is one \<^verbatim>\<open>stdout.write\<close>.\<close>

definition Response_writeHeaders :: "response \<Rightarrow> response" where
  "Response_writeHeaders r =
     (if headersSent r then r
      else r\<lparr>stdout := stdout r @
                map Buffer_from
                  ([status_line STATUS_MESSAGES (statusCode r)] @
                   concat (map header_lines (headers r)) @
                   map (\<lambda>cookie. ''Set-Cookie: '' @ cookie @ CRLF) (cookies r) @
                   [CRLF]),
             headersSent := True\<rparr>)"

fun chunk_bytes :: "chunk \<Rightarrow> byte list" where
  "chunk_bytes (Str s) = Buffer_from s"
| "chunk_bytes (Buf b) = b"
| "chunk_bytes (Other s) = Buffer_from s"

definition Response_write :: "response \<Rightarrow> chunk \<Rightarrow> response result" where
  "Response_write r chunk =
     (if finished r then Inl (Error ''Cannot write after response finished'', r)
      else (let r1 = Response_writeHeaders r
            in Inr (r1\<lparr>stdout := stdout r1 @ [chunk_bytes chunk]\<rparr>)))"

definition Response_end :: "response \<Rightarrow> chunk option \<Rightarrow> response result" where
  "Response_end r data =
     (if finished r then Inr r
      else (case data of
              Some chunk \<Rightarrow>
                (case Response_write r chunk of
                   Inl thrown \<Rightarrow> Inl thrown
                 | Inr r1 \<Rightarrow> Inr (r1\<lparr>finished := True\<rparr>))
            | None \<Rightarrow> Inr ((Response_writeHeaders r)\<lparr>finished := True\<rparr>)))"

text \<open>\<^verbatim>\<open>json(data)\<close>: \<^verbatim>\<open>Buffer.byteLength(undefined)\<close> throws a \<^verbatim>\<open>TypeError\<close>.\<close>

definition Response_json :: "response \<Rightarrow> stringified \<Rightarrow> response result" where
  "Response_json r data =
     (case Response_type r ''json'' of
        Inl thrown \<Rightarrow> Inl thrown
      | Inr r1 \<Rightarrow>
          (case data of
             JSON_throws \<Rightarrow> Inl (TypeError, r1)
           | JSON_undefined \<Rightarrow> Inl (TypeError, r1)
           | JSON_text body \<Rightarrow>
               (case Response_set r1 ''Content-Length'' (HNum (length body)) of
                  Inl thrown \<Rightarrow> Inl thrown
                | Inr r2 \<Rightarrow> Response_end r2 (Some (Str body)))))"

text \<open>The test \<^verbatim>\<open>!this._headers['Content-Type']\<close> of \<^verbatim>\<open>send\<close>.\<close>

definition content_type_unset :: "response \<Rightarrow> bool" where
  "content_type_unset r = (\<not> truthy (get_prop (headers r) ''Content-Type''))"

fun Response_send :: "response \<Rightarrow> js_value \<Rightarrow> response result" where
  "Response_send r Undefined = Response_end r None"
| "Response_send r Null = Response_end r None"
| "Response_send r (String s) =
     (if content_type_unset r
      then (case Response_type r ''html'' of
              Inl thrown \<Rightarrow> Inl thrown
            | Inr r1 \<Rightarrow> Response_end r1 (Some (Str s)))
      else Response_end r (Some (Str s)))"
| "Response_send r (Buffer b) =
     (if content_type_unset r
      then (case Response_type r ''application/octet-stream'' of
              Inl thrown \<Rightarrow> Inl thrown
            | Inr r1 \<Rightarrow> Response_end r1 (Some (Buf b)))
      else Response_end r (Some (Buf b)))"
| "Response_send r (Object data) = Response_json r data"
| "Response_send r (Primitive s data) = Response_json r data"

definition Response_redirect :: "response \<Rightarrow> string \<Rightarrow> nat \<Rightarrow> response result" where
  "Response_redirect r url code =
     (case Response_status r code of
        Inl thrown \<Rightarrow> Inl thrown
      | Inr r1 \<Rightarrow>
          (case Response_set r1 ''Location'' (HStr url) of
             Inl thrown \<Rightarrow> Inl thrown
           | Inr r2 \<Rightarrow> Response_end r2 None))"

subsection \<open>The envelope of a FastCGI response, after the words of the specification\<close>

text \<open>
  One stream record around a piece of content: the header with version 1, the type, the
  request id and the content length in big-endian order, the padding length
  \<open>(8 - content_length mod 8) mod 8\<close> and a reserved byte; then the content; then the
  padding, zero-filled. \<open>end_request_record\<close> is the \<^verbatim>\<open>END_REQUEST\<close> record,
  \<open>split_chunks\<close> cuts a byte sequence into pieces of 65,535 bytes (the last one
  shorter), \<open>response_bytes\<close> is the byte sequence of a response: what is buffered,
  the header block if it is not buffered yet, and the final chunk. \<open>end_buffered\<close> is
  the object once \<^verbatim>\<open>end\<close> has buffered its argument.
\<close>

definition stream_record :: "nat \<Rightarrow> nat \<Rightarrow> byte list \<Rightarrow> byte list" where
  "stream_record type rid content =
     [1, of_nat type, of_nat (rid div 256), of_nat (rid mod 256),
      of_nat (length content div 256), of_nat (length content mod 256),
      of_nat ((8 - length content mod 8) mod 8), 0]
     @ content @ replicate ((8 - length content mod 8) mod 8) 0"

definition end_request_record :: "nat \<Rightarrow> nat \<Rightarrow> nat \<Rightarrow> byte list" where
  "end_request_record rid appStatus protocolStatus =
     [1, 3, of_nat (rid div 256), of_nat (rid mod 256), 0, 8, 0, 0,
      of_nat (appStatus div 16777216), of_nat (appStatus div 65536 mod 256),
      of_nat (appStatus div 256 mod 256), of_nat (appStatus mod 256),
      of_nat protocolStatus, 0, 0, 0]"

function split_chunks :: "byte list \<Rightarrow> byte list list" where
  "split_chunks data =
     (if data = [] then [] else take 65535 data # split_chunks (drop 65535 data))"
  by pat_completeness auto

termination
  by (relation "measure length") auto

declare split_chunks.simps [simp del]

definition response_bytes :: "fcgi_response \<Rightarrow> chunk option \<Rightarrow> byte list" where
  "response_bytes r data =
     concat (buffer r) @
     (if headersSent r then [] else FCGIResponse_buildHeaders r) @
     (case data of Some (Str s) \<Rightarrow> Buffer_from s | Some (Buf b) \<Rightarrow> b | _ \<Rightarrow> [])"

definition end_buffered :: "fcgi_response \<Rightarrow> chunk option \<Rightarrow> fcgi_response" where
  "end_buffered r data =
     (case data of
        Some chunk \<Rightarrow> FCGIResponse_write r chunk
      | None \<Rightarrow>
          if \<not> headersSent r
          then r\<lparr>buffer := buffer r @ [FCGIResponse_buildHeaders r], headersSent := True\<rparr>
          else r)"

subsection \<open>Strings of the platform, on ASCII\<close>

definition startsWith :: "string \<Rightarrow> string \<Rightarrow> bool" where
  "startsWith s pre = (take (length pre) s = pre)"

definition endsWith :: "string \<Rightarrow> string \<Rightarrow> bool" where
  "endsWith s suf = (length suf \<le> length s \<and> drop (length s - length suf) s = suf)"

definition ascii_lower :: "char \<Rightarrow> char" where
  "ascii_lower c =
     (let n = (of_char c :: nat) in if 65 \<le> n \<and> n \<le> 90 then char_of (n + 32) else c)"

definition toLowerCase :: "string \<Rightarrow> string" where
  "toLowerCase s = map ascii_lower s"

text \<open>\<^verbatim>\<open>s.replace(/_/g, '-')\<close>.\<close>

definition replace_underscores :: "string \<Rightarrow> string" where
  "replace_underscores s = map (\<lambda>c. if c = CHR ''_'' then CHR ''-'' else c) s"

text \<open>\<^verbatim>\<open>s.split(c)\<close> for a separator of one character: the empty string gives one empty
  piece.\<close>

fun split_on :: "char \<Rightarrow> string \<Rightarrow> string list" where
  "split_on c [] = [[]]"
| "split_on c (x # xs) =
     (if x = c then [] # split_on c xs
      else (case split_on c xs of
              [] \<Rightarrow> [[x]]
            | y # ys \<Rightarrow> (x # y) # ys))"

definition is_space :: "char \<Rightarrow> bool" where
  "is_space c = (of_char c \<in> {9, 10, 11, 12, 13, 32 :: nat})"

definition trim :: "string \<Rightarrow> string" where
  "trim s = rev (dropWhile is_space (rev (dropWhile is_space s)))"

definition is_hex :: "char \<Rightarrow> bool" where
  "is_hex c =
     (let n = (of_char c :: nat)
      in (48 \<le> n \<and> n \<le> 57) \<or> (65 \<le> n \<and> n \<le> 70) \<or> (97 \<le> n \<and> n \<le> 102))"

definition hex_val :: "char \<Rightarrow> nat" where
  "hex_val c =
     (let n = (of_char c :: nat)
      in if n \<le> 57 then n - 48 else if n \<le> 70 then n - 55 else n - 87)"

subsection \<open>\<^verbatim>\<open>decodeURIComponent\<close> and \<^verbatim>\<open>URLSearchParams\<close>\<close>

text \<open>
  \<open>read_escapes k s\<close> reads \<open>k\<close> escapes \<^verbatim>\<open>%XX\<close> from the front of \<open>s\<close>: the bytes and
  what follows, or \<open>None\<close> when \<open>s\<close> does not start with that many.
\<close>

fun read_escapes :: "nat \<Rightarrow> string \<Rightarrow> (nat list \<times> string) option" where
  "read_escapes 0 s = Some ([], s)"
| "read_escapes (Suc k) (c # h1 # h2 # rest) =
     (if c = CHR ''%'' \<and> is_hex h1 \<and> is_hex h2
      then (case read_escapes k rest of
              None \<Rightarrow> None
            | Some (bs, r) \<Rightarrow> Some ((hex_val h1 * 16 + hex_val h2) # bs, r))
      else None)"
| "read_escapes (Suc k) s = None"

text \<open>The number of leading 1 bits of a byte that has its top bit set (5 stands for 5
  or more).\<close>

definition leading_ones :: "nat \<Rightarrow> nat" where
  "leading_ones b =
     (if b < 192 then 1 else if b < 224 then 2 else if b < 240 then 3
      else if b < 248 then 4 else 5)"

definition is_continuation :: "nat \<Rightarrow> bool" where
  "is_continuation b = (128 \<le> b \<and> b \<le> 191)"

text \<open>The well-formed UTF-8 sequences of one code point, of 2 to 4 bytes: no overlong
  form, no surrogate, nothing beyond U+10FFFF.\<close>

fun utf8_valid :: "nat list \<Rightarrow> bool" where
  "utf8_valid [b0, b1] = (194 \<le> b0 \<and> b0 \<le> 223 \<and> is_continuation b1)"
| "utf8_valid [b0, b1, b2] =
     (224 \<le> b0 \<and> b0 \<le> 239 \<and> is_continuation b1 \<and> is_continuation b2 \<and>
      (if b0 = 224 then 160 \<le> b1 else if b0 = 237 then b1 \<le> 159 else True))"
| "utf8_valid [b0, b1, b2, b3] =
     (240 \<le> b0 \<and> b0 \<le> 244 \<and> is_continuation b1 \<and> is_continuation b2 \<and>
      is_continuation b3 \<and>
      (if b0 = 240 then 144 \<le> b1 else if b0 = 244 then b1 \<le> 143 else True))"
| "utf8_valid bs = False"

text \<open>
  \<^verbatim>\<open>decodeURIComponent(s)\<close>, the \<^verbatim>\<open>Decode\<close> operation of ECMAScript with no reserved
  character: a \<^verbatim>\<open>%\<close> must start an escape; an escaped byte below 128 is the character;
  another one must start a well-formed UTF-8 sequence whose further bytes are escapes
  too. Everything else is a \<^verbatim>\<open>URIError\<close>.
\<close>

function decodeURIComponent :: "string \<Rightarrow> js_error + string" where
  "decodeURIComponent [] = Inr []"
| "decodeURIComponent (c # rest) =
     (if c \<noteq> CHR ''%''
      then (case decodeURIComponent rest of Inl e \<Rightarrow> Inl e | Inr t \<Rightarrow> Inr (c # t))
      else (case read_escapes 1 (c # rest) of
              None \<Rightarrow> Inl URIError
            | Some (first, rest1) \<Rightarrow>
                (let b = hd first in
                 if b < 128
                 then (case decodeURIComponent rest1 of
                         Inl e \<Rightarrow> Inl e
                       | Inr t \<Rightarrow> Inr (char_of b # t))
                 else if leading_ones b = 1 \<or> 4 < leading_ones b then Inl URIError
                 else (case read_escapes (leading_ones b - 1) rest1 of
                         None \<Rightarrow> Inl URIError
                       | Some (others, rest2) \<Rightarrow>
                           if utf8_valid (b # others)
                           then (case decodeURIComponent rest2 of
                                   Inl e \<Rightarrow> Inl e
                                 | Inr t \<Rightarrow> Inr (map char_of (b # others) @ t))
                           else Inl URIError))))"
  by pat_completeness auto

lemma read_escapes_length:
  "read_escapes k s = Some (bs, r) \<Longrightarrow> length r + 3 * k = length s"
proof (induction k s arbitrary: bs r rule: read_escapes.induct)
  case (1 s)
  then show ?case by simp
next
  case (2 k c h1 h2 rest)
  then show ?case by (auto split: if_splits option.splits)
qed simp_all

termination decodeURIComponent
proof (relation "measure length", goal_cases)
  case 1
  show ?case by simp
next
  case (2 c rest)
  show ?case by simp
next
  case (3 c rest x2 x y xa)
  then show ?case using read_escapes_length [of 1 "c # rest" x y] by simp
next
  case (4 c rest x2 x y xa x2a xb ya)
  then show ?case
    using read_escapes_length [of 1 "c # rest" x y]
          read_escapes_length [of "leading_ones xa - 1" y xb ya]
    by simp
qed

text \<open>
  Percent-decoding as \<^verbatim>\<open>URLSearchParams\<close> does it: a \<^verbatim>\<open>%\<close> that does not start an
  escape stays.
\<close>

fun percent_decode :: "string \<Rightarrow> string" where
  "percent_decode (c # h1 # h2 # rest) =
     (if c = CHR ''%'' \<and> is_hex h1 \<and> is_hex h2
      then char_of (hex_val h1 * 16 + hex_val h2) # percent_decode rest
      else c # percent_decode (h1 # h2 # rest))"
| "percent_decode (c # rest) = c # percent_decode rest"
| "percent_decode [] = []"

definition plus_to_space :: "string \<Rightarrow> string" where
  "plus_to_space s = map (\<lambda>c. if c = CHR ''+'' then CHR '' '' else c) s"

text \<open>One piece between two \<^verbatim>\<open>&\<close>: the name up to the first \<^verbatim>\<open>=\<close>, the value after it.\<close>

definition form_pair :: "string \<Rightarrow> string \<times> string" where
  "form_pair piece =
     (let name = takeWhile (\<lambda>c. c \<noteq> CHR ''='') piece;
          val = drop (length name + 1) piece
      in (percent_decode (plus_to_space name), percent_decode (plus_to_space val)))"

text \<open>
  The pairs that \<^verbatim>\<open>new URLSearchParams(init)\<close> iterates over: a leading \<^verbatim>\<open>?\<close> is
  dropped, the string is split at \<^verbatim>\<open>&\<close>, empty pieces are skipped.
\<close>

definition URLSearchParams :: "string \<Rightarrow> (string \<times> string) list" where
  "URLSearchParams init =
     map form_pair
       (filter (\<lambda>piece. piece \<noteq> [])
          (split_on CHR ''&'' (if startsWith init ''?'' then tl init else init)))"

subsection \<open>The decoder of \<^verbatim>\<open>cgi.js\<close>\<close>

text \<open>A value of the query object: a string, or an array of strings.\<close>

datatype qvalue = QStr string | QArr "string list"

text \<open>
  The loop of \<^verbatim>\<open>parseQueryString\<close> over the pairs, with \<^verbatim>\<open>result\<close> as accumulator.
  For a key that ends in \<^verbatim>\<open>[]\<close>: \<^verbatim>\<open>!result[arrayKey]\<close> holds of \<^verbatim>\<open>undefined\<close> and of the
  empty string, and \<^verbatim>\<open>push\<close> on a string that is not empty is a \<^verbatim>\<open>TypeError\<close>
  (a string has no \<^verbatim>\<open>push\<close>). Keys that name a member of \<^verbatim>\<open>Object.prototype\<close> are
  outside this model.
\<close>

fun parseQueryString_loop ::
  "(string \<times> string) list \<Rightarrow> qvalue js_object \<Rightarrow> js_error + qvalue js_object" where
  "parseQueryString_loop [] result = Inr result"
| "parseQueryString_loop ((key, val) # rest) result =
     (if endsWith key ''[]'' then
        (let arrayKey = take (length key - 2) key
         in case get_prop result arrayKey of
              None \<Rightarrow> parseQueryString_loop rest (set_prop result arrayKey (QArr [val]))
            | Some (QStr s) \<Rightarrow>
                if s = [] then parseQueryString_loop rest (set_prop result arrayKey (QArr [val]))
                else Inl TypeError
            | Some (QArr vs) \<Rightarrow>
                parseQueryString_loop rest (set_prop result arrayKey (QArr (vs @ [val]))))
      else
        (case get_prop result key of
           Some (QArr vs) \<Rightarrow> parseQueryString_loop rest (set_prop result key (QArr (vs @ [val])))
         | Some (QStr s) \<Rightarrow> parseQueryString_loop rest (set_prop result key (QArr [s, val]))
         | None \<Rightarrow> parseQueryString_loop rest (set_prop result key (QStr val))))"

definition parseQueryString :: "string \<Rightarrow> js_error + qvalue js_object" where
  "parseQueryString queryString =
     (if queryString = [] then Inr []
      else parseQueryString_loop (URLSearchParams queryString) [])"

text \<open>The loop of \<^verbatim>\<open>parseCookies\<close> over \<^verbatim>\<open>cookieHeader.split(';')\<close>.\<close>

fun parseCookies_loop :: "string list \<Rightarrow> string js_object \<Rightarrow> js_error + string js_object" where
  "parseCookies_loop [] cookieObj = Inr cookieObj"
| "parseCookies_loop (pair # pairs) cookieObj =
     (let parts = split_on CHR ''='' (trim pair);
          name = hd parts;
          rest = tl parts
      in if name \<noteq> []
         then (case decodeURIComponent (join_with ''='' rest) of
                 Inl e \<Rightarrow> Inl e
               | Inr decoded \<Rightarrow> parseCookies_loop pairs (set_prop cookieObj (trim name) decoded))
         else parseCookies_loop pairs cookieObj)"

text \<open>\<^verbatim>\<open>parseCookies(cookieHeader)\<close>; \<open>None\<close> is \<^verbatim>\<open>undefined\<close>.\<close>

definition parseCookies :: "string option \<Rightarrow> js_error + string js_object" where
  "parseCookies cookieHeader =
     (case cookieHeader of
        None \<Rightarrow> Inr []
      | Some str \<Rightarrow>
          if str = [] then Inr [] else parseCookies_loop (split_on CHR '';'' str) [])"

text \<open>\<^verbatim>\<open>parseHeaders(env)\<close>: the loop over the entries, then the two special names, which
  count when they hold a string that is not empty.\<close>

fun parseHeaders_loop :: "string js_object \<Rightarrow> string js_object \<Rightarrow> string js_object" where
  "parseHeaders_loop [] hdrs = hdrs"
| "parseHeaders_loop ((key, val) # rest) hdrs =
     (if startsWith key ''HTTP_''
      then parseHeaders_loop rest
             (set_prop hdrs (replace_underscores (toLowerCase (drop 5 key))) val)
      else parseHeaders_loop rest hdrs)"

definition set_if_truthy ::
  "string js_object \<Rightarrow> string \<Rightarrow> string option \<Rightarrow> string js_object" where
  "set_if_truthy hdrs name val =
     (case val of
        None \<Rightarrow> hdrs
      | Some str \<Rightarrow> if str = [] then hdrs else set_prop hdrs name str)"

definition parseHeaders :: "string js_object \<Rightarrow> string js_object" where
  "parseHeaders env =
     set_if_truthy
       (set_if_truthy (parseHeaders_loop env []) ''content-type'' (get_prop env ''CONTENT_TYPE''))
       ''content-length'' (get_prop env ''CONTENT_LENGTH'')"

text \<open>
  The request object, with the properties that \<^verbatim>\<open>parseCGIEnv\<close> computes by a call that
  can throw and the ones \<^verbatim>\<open>_tryHandleRequest\<close> adds; the other properties (\<^verbatim>\<open>method\<close>,
  \<^verbatim>\<open>url\<close>, \<^verbatim>\<open>path\<close> and the copies of the CGI variables) are computed by expressions that
  always return and are left out. The body as parsed: \<^verbatim>\<open>null\<close>, a string, the text handed
  to \<^verbatim>\<open>JSON.parse\<close> (the value is the parsed one, or the text where \<^verbatim>\<open>JSON.parse\<close>
  throws), or a query object.
\<close>

datatype parsed_body = PNull | PText string | PJson string | PForm "qvalue js_object"

record cgi_request =
  rq_queryString :: "string option"
  rq_contentType :: "string option"
  rq_headers :: "string js_object"
  rq_query :: "qvalue js_object"
  rq_cookies :: "string js_object"
  rq_rawBody :: "byte list"
  rq_body :: parsed_body

text \<open>\<^verbatim>\<open>parseCGIEnv(env)\<close>: \<^verbatim>\<open>request.queryString || ''\<close> is the query string or the
  empty string.\<close>

definition parseCGIEnv :: "string js_object \<Rightarrow> js_error + cgi_request" where
  "parseCGIEnv env =
     (let hdrs = parseHeaders env
      in case parseQueryString (case get_prop env ''QUERY_STRING'' of
                                  None \<Rightarrow> [] | Some str \<Rightarrow> str) of
           Inl e \<Rightarrow> Inl e
         | Inr qry \<Rightarrow>
             (case parseCookies (get_prop hdrs ''cookie'') of
                Inl e \<Rightarrow> Inl e
              | Inr cks \<Rightarrow>
                  Inr \<lparr>rq_queryString = get_prop env ''QUERY_STRING'',
                       rq_contentType = get_prop env ''CONTENT_TYPE'',
                       rq_headers = hdrs, rq_query = qry, rq_cookies = cks,
                       rq_rawBody = [], rq_body = PNull\<rparr>))"

text \<open>\<^verbatim>\<open>parseBody(body, contentType)\<close>, the parsed form.\<close>

definition parseBody :: "byte list \<Rightarrow> string option \<Rightarrow> js_error + parsed_body" where
  "parseBody body contentType =
     (if length body = 0 then Inr PNull
      else
        (let bodyStr = toString_utf8 body
         in case contentType of
              None \<Rightarrow> Inr (PText bodyStr)
            | Some ctype \<Rightarrow>
                if ctype = [] then Inr (PText bodyStr)
                else
                  (let media = trim (hd (split_on CHR '';'' (toLowerCase ctype)))
                   in if media = ''application/json'' then Inr (PJson bodyStr)
                      else if media = ''application/x-www-form-urlencoded''
                      then (case parseQueryString bodyStr of
                              Inl e \<Rightarrow> Inl e
                            | Inr parsed \<Rightarrow> Inr (PForm parsed))
                      else if media = ''text/plain'' \<or> media = ''text/html'' \<or>
                              media = ''text/xml'' \<or> media = ''application/xml''
                      then Inr (PText bodyStr)
                      else Inr PNull)))"

subsection \<open>Reading records: \<^verbatim>\<open>parseHeader\<close> and \<^verbatim>\<open>parseNameValuePairs\<close>\<close>

text \<open>The readers of \<^verbatim>\<open>Buffer\<close> throw a \<^verbatim>\<open>RangeError\<close> when they would read beyond
  the end.\<close>

definition readUInt8 :: "byte list \<Rightarrow> nat \<Rightarrow> js_error + nat" where
  "readUInt8 buf offset =
     (if offset + 1 \<le> length buf then Inr (unat (buf ! offset)) else Inl RangeError)"

definition readUInt16BE :: "byte list \<Rightarrow> nat \<Rightarrow> js_error + nat" where
  "readUInt16BE buf offset =
     (if offset + 2 \<le> length buf
      then Inr (unat (buf ! offset) * 256 + unat (buf ! (offset + 1)))
      else Inl RangeError)"

definition readUInt32BE :: "byte list \<Rightarrow> nat \<Rightarrow> js_error + nat" where
  "readUInt32BE buf offset =
     (if offset + 4 \<le> length buf
      then Inr (unat (buf ! offset) * 16777216 + unat (buf ! (offset + 1)) * 65536 +
                unat (buf ! (offset + 2)) * 256 + unat (buf ! (offset + 3)))
      else Inl RangeError)"

record fcgi_header =
  h_version :: nat
  h_type :: nat
  h_requestId :: nat
  h_contentLength :: nat
  h_paddingLength :: nat
  h_reserved :: nat

text \<open>\<^verbatim>\<open>parseHeader(buffer)\<close>; \<open>None\<close> is \<^verbatim>\<open>null\<close>. No field is checked.\<close>

definition parseHeader :: "byte list \<Rightarrow> fcgi_header option" where
  "parseHeader buf =
     (if length buf < FCGI_HEADER_LEN then None
      else Some \<lparr>h_version = unat (buf ! 0),
                 h_type = unat (buf ! 1),
                 h_requestId = unat (buf ! 2) * 256 + unat (buf ! 3),
                 h_contentLength = unat (buf ! 4) * 256 + unat (buf ! 5),
                 h_paddingLength = unat (buf ! 6),
                 h_reserved = unat (buf ! 7)\<rparr>)"

text \<open>
  One length of a name-value pair, read at \<open>offset\<close>: the length and the offset after
  it. A first byte with the high bit set starts a length of 4 bytes, of which the low 31
  bits count.
\<close>

definition read_length :: "byte list \<Rightarrow> nat \<Rightarrow> js_error + (nat \<times> nat)" where
  "read_length buf offset =
     (case readUInt8 buf offset of
        Inl e \<Rightarrow> Inl e
      | Inr len \<Rightarrow>
          if len div 128 = 1
          then (case readUInt32BE buf offset of
                  Inl e \<Rightarrow> Inl e
                | Inr len4 \<Rightarrow> Inr (len4 mod 2147483648, offset + 4))
          else Inr (len, offset + 1))"

lemma read_length_advances:
  "read_length buf offset = Inr (len, offset') \<Longrightarrow> offset < offset'"
  by (auto simp: read_length_def split: sum.splits if_splits)

text \<open>
  \<^verbatim>\<open>parseNameValuePairs(buffer)\<close>: the loop \<^verbatim>\<open>while (offset < buffer.length)\<close>, with
  \<^verbatim>\<open>params\<close> as accumulator. \<^verbatim>\<open>slice\<close> stops at the end of the buffer.
\<close>

function parseNameValuePairs_loop ::
  "byte list \<Rightarrow> nat \<Rightarrow> string js_object \<Rightarrow> js_error + string js_object" where
  "parseNameValuePairs_loop buf offset pairs =
     (if offset < length buf then
        (case read_length buf offset of
           Inl e \<Rightarrow> Inl e
         | Inr (nameLength, offset1) \<Rightarrow>
             (case read_length buf offset1 of
                Inl e \<Rightarrow> Inl e
              | Inr (valueLength, offset2) \<Rightarrow>
                  (let name = toString_utf8 (take nameLength (drop offset2 buf));
                       offset3 = offset2 + nameLength;
                       val = toString_utf8 (take valueLength (drop offset3 buf));
                       offset4 = offset3 + valueLength
                   in parseNameValuePairs_loop buf offset4 (set_prop pairs name val))))
      else Inr pairs)"
  by pat_completeness auto
termination
proof (relation "measure (\<lambda>(buf, offset, pairs). length buf - offset)", goal_cases)
  case 1
  show ?case by simp
next
  case (2 buf offset pairs x2 x y x2a xa ya xb xc xd xe)
  then show ?case
    using read_length_advances [of buf offset x y] read_length_advances [of buf y xa ya]
    by simp
qed

declare parseNameValuePairs_loop.simps [simp del]

definition parseNameValuePairs :: "byte list \<Rightarrow> js_error + string js_object" where
  "parseNameValuePairs buf = parseNameValuePairs_loop buf 0 []"

subsection \<open>\<^verbatim>\<open>FCGIRequest\<close>\<close>

record fcgi_request =
  req_requestId :: nat
  req_role :: nat
  req_keepConn :: bool
  req_params :: "string js_object"
  req_paramsComplete :: bool
  req_stdin :: "byte list list"
  req_stdinComplete :: bool
  req_data :: "byte list list"
  req_dataComplete :: bool

definition FCGIRequest_new :: "nat \<Rightarrow> nat \<Rightarrow> bool \<Rightarrow> fcgi_request" where
  "FCGIRequest_new rid role keepConn =
     \<lparr>req_requestId = rid, req_role = role, req_keepConn = keepConn,
      req_params = [], req_paramsComplete = False,
      req_stdin = [], req_stdinComplete = False,
      req_data = [], req_dataComplete = False\<rparr>"

definition addParams :: "fcgi_request \<Rightarrow> byte list \<Rightarrow> js_error + fcgi_request" where
  "addParams req buf =
     (if length buf = 0 then Inr (req\<lparr>req_paramsComplete := True\<rparr>)
      else (case parseNameValuePairs buf of
              Inl e \<Rightarrow> Inl e
            | Inr parsed \<Rightarrow> Inr (req\<lparr>req_params := Object_assign (req_params req) parsed\<rparr>)))"

definition addStdin :: "fcgi_request \<Rightarrow> byte list \<Rightarrow> fcgi_request" where
  "addStdin req buf =
     (if length buf = 0 then req\<lparr>req_stdinComplete := True\<rparr>
      else req\<lparr>req_stdin := req_stdin req @ [buf]\<rparr>)"

definition getStdinBuffer :: "fcgi_request \<Rightarrow> byte list" where
  "getStdinBuffer req = concat (req_stdin req)"

definition isReady :: "fcgi_request \<Rightarrow> bool" where
  "isReady req = (req_paramsComplete req \<and> req_stdinComplete req)"

subsection \<open>The connection handling of \<^verbatim>\<open>FastCGIServer\<close>\<close>

text \<open>
  What one connection holds: the map \<^verbatim>\<open>requests\<close> of \<^verbatim>\<open>_handleConnection\<close>, what was
  written to its socket, and the \<^verbatim>\<open>'request'\<close> events emitted for it, each with the
  request object and the request id of the \<^verbatim>\<open>FCGIResponse\<close> created for it on this
  socket. The options of the server are the two numbers.
\<close>

record conn_state =
  requests :: "nat \<rightharpoonup> fcgi_request"
  conn_socket :: "byte list list"
  emitted :: "(cgi_request \<times> nat) list"

record server_options =
  maxConns :: nat
  maxReqs :: nat

text \<open>
  \<^verbatim>\<open>_tryHandleRequest(socket, requests, requestId)\<close>. The entry is deleted before the
  request object is built: an exception of \<^verbatim>\<open>parseCGIEnv\<close> or \<^verbatim>\<open>parseBody\<close> leaves the
  map without it, and no event emitted.
\<close>

definition tryHandleRequest :: "conn_state \<Rightarrow> nat \<Rightarrow> conn_state result" where
  "tryHandleRequest st rid =
     (case requests st rid of
        None \<Rightarrow> Inr st
      | Some fcgiReq \<Rightarrow>
          if \<not> isReady fcgiReq then Inr st
          else
            (let st1 = st\<lparr>requests := (requests st)(rid := None)\<rparr>
             in case parseCGIEnv (req_params fcgiReq) of
                  Inl e \<Rightarrow> Inl (e, st1)
                | Inr request \<Rightarrow>
                    (let stdinBuffer = getStdinBuffer fcgiReq
                     in if 0 < length stdinBuffer
                        then (case parseBody stdinBuffer (rq_contentType request) of
                                Inl e \<Rightarrow> Inl (e, st1)
                              | Inr parsed \<Rightarrow>
                                  Inr (st1\<lparr>emitted := emitted st1 @
                                         [(request\<lparr>rq_rawBody := stdinBuffer,
                                                    rq_body := parsed\<rparr>, rid)]\<rparr>))
                        else Inr (st1\<lparr>emitted := emitted st1 @
                                    [(request\<lparr>rq_rawBody := [], rq_body := PNull\<rparr>,
                                      rid)]\<rparr>))))"

text \<open>The pairs of \<^verbatim>\<open>_buildGetValuesResult\<close>, each with two length bytes.\<close>

fun encode_results :: "string js_object \<Rightarrow> js_error + byte list" where
  "encode_results [] = Inr []"
| "encode_results ((name, val) # rest) =
     (if 255 < length name \<or> 255 < length val then Inl RangeError
      else (case encode_results rest of
              Inl e \<Rightarrow> Inl e
            | Inr tail \<Rightarrow>
                Inr ([of_nat (length name), of_nat (length val)] @
                     Buffer_from name @ Buffer_from val @ tail)))"

definition buildGetValuesResult :: "server_options \<Rightarrow> byte list \<Rightarrow> js_error + byte list" where
  "buildGetValuesResult opts content =
     (case parseNameValuePairs content of
        Inl e \<Rightarrow> Inl e
      | Inr queried \<Rightarrow>
          (let results =
                 (if get_prop queried ''FCGI_MAX_CONNS'' \<noteq> None
                  then [(''FCGI_MAX_CONNS'', show_nat (maxConns opts))] else []) @
                 (if get_prop queried ''FCGI_MAX_REQS'' \<noteq> None
                  then [(''FCGI_MAX_REQS'', show_nat (maxReqs opts))] else []) @
                 (if get_prop queried ''FCGI_MPXS_CONNS'' \<noteq> None
                  then [(''FCGI_MPXS_CONNS'', ''1'')] else [])
           in case encode_results results of
                Inl e \<Rightarrow> Inl e
              | Inr resultBuffer \<Rightarrow>
                  (case buildHeader FCGI_GET_VALUES_RESULT 0 (length resultBuffer) 0 of
                     Inl e \<Rightarrow> Inl e
                   | Inr header \<Rightarrow> Inr (header @ resultBuffer))))"

text \<open>
  \<^verbatim>\<open>_processRecord(socket, requests, header, content)\<close>: the \<^verbatim>\<open>switch\<close> on the type of
  the record; a type without a case does nothing.
\<close>

definition processRecord ::
  "server_options \<Rightarrow> conn_state \<Rightarrow> fcgi_header \<Rightarrow> byte list \<Rightarrow> conn_state result" where
  "processRecord opts st header content =
     (let rid = h_requestId header in
      if h_type header = FCGI_BEGIN_REQUEST then
        (case readUInt16BE content 0 of
           Inl e \<Rightarrow> Inl (e, st)
         | Inr role \<Rightarrow>
             (case readUInt8 content 2 of
                Inl e \<Rightarrow> Inl (e, st)
              | Inr flags \<Rightarrow>
                  Inr (st\<lparr>requests :=
                         (requests st)(rid \<mapsto> FCGIRequest_new rid role (flags mod 2 \<noteq> 0))\<rparr>)))
      else if h_type header = FCGI_PARAMS then
        (case requests st rid of
           None \<Rightarrow> tryHandleRequest st rid
         | Some req \<Rightarrow>
             (case addParams req content of
                Inl e \<Rightarrow> Inl (e, st)
              | Inr req' \<Rightarrow> tryHandleRequest (st\<lparr>requests := (requests st)(rid \<mapsto> req')\<rparr>) rid))
      else if h_type header = FCGI_STDIN then
        (case requests st rid of
           None \<Rightarrow> tryHandleRequest st rid
         | Some req \<Rightarrow>
             tryHandleRequest (st\<lparr>requests := (requests st)(rid \<mapsto> addStdin req content)\<rparr>) rid)
      else if h_type header = FCGI_ABORT_REQUEST then
        Inr (st\<lparr>requests := (requests st)(rid := None)\<rparr>)
      else if h_type header = FCGI_GET_VALUES then
        (case buildGetValuesResult opts content of
           Inl e \<Rightarrow> Inl (e, st)
         | Inr response \<Rightarrow> Inr (st\<lparr>conn_socket := conn_socket st @ [response]\<rparr>))
      else Inr st)"

text \<open>
  The handler of \<^verbatim>\<open>'data'\<close> in \<^verbatim>\<open>_handleConnection\<close>: the loop
  \<^verbatim>\<open>while (buffer.length >= FCGI_HEADER_LEN)\<close> on the bytes not yet framed. The buffer is
  advanced before the record is processed, so it is past the record when
  \<^verbatim>\<open>_processRecord\<close> throws.
\<close>

function connection_loop ::
  "server_options \<Rightarrow> byte list \<Rightarrow> conn_state \<Rightarrow> (byte list \<times> conn_state) result" where
  "connection_loop opts buf st =
     (if FCGI_HEADER_LEN \<le> length buf then
        (case parseHeader buf of
           None \<Rightarrow> Inr (buf, st)
         | Some header \<Rightarrow>
             (let totalLength = FCGI_HEADER_LEN + h_contentLength header + h_paddingLength header
              in if length buf < totalLength then Inr (buf, st)
                 else
                   (let content = take (h_contentLength header) (drop FCGI_HEADER_LEN buf);
                        buf' = drop totalLength buf
                    in case processRecord opts st header content of
                         Inl (e, st') \<Rightarrow> Inl (e, (buf', st'))
                       | Inr st' \<Rightarrow> connection_loop opts buf' st')))
      else Inr (buf, st))"
  by pat_completeness auto
termination
  by (relation "measure (\<lambda>(opts, buf, st). length buf)") (auto simp: FCGI_HEADER_LEN_def)

declare connection_loop.simps [simp del]

text \<open>One \<^verbatim>\<open>'data'\<close> event: the chunk is appended to what is left of the earlier ones.\<close>

definition on_data ::
  "server_options \<Rightarrow> byte list \<times> conn_state \<Rightarrow> byte list \<Rightarrow> (byte list \<times> conn_state) result" where
  "on_data opts conn chunk = connection_loop opts (fst conn @ chunk) (snd conn)"

subsection \<open>A stream of records\<close>

text \<open>
  The records of an inbound stream, handed to \<^verbatim>\<open>_processRecord\<close> one after the other as
  the handler of \<^verbatim>\<open>'data'\<close> does; an exception ends the processing. \<open>begin_ids\<close> lists
  the request ids of the \<^verbatim>\<open>BEGIN_REQUEST\<close> records of a stream, \<open>dispatched\<close> the
  request ids of the \<^verbatim>\<open>'request'\<close> events emitted so far.
\<close>

fun process_all ::
  "server_options \<Rightarrow> conn_state \<Rightarrow> (fcgi_header \<times> byte list) list \<Rightarrow> conn_state result" where
  "process_all opts st [] = Inr st"
| "process_all opts st ((header, content) # rest) =
     (case processRecord opts st header content of
        Inl thrown \<Rightarrow> Inl thrown
      | Inr st' \<Rightarrow> process_all opts st' rest)"

definition begin_ids :: "(fcgi_header \<times> byte list) list \<Rightarrow> nat list" where
  "begin_ids records =
     map (\<lambda>(header, content). h_requestId header)
       (filter (\<lambda>(header, content). h_type header = FCGI_BEGIN_REQUEST) records)"

definition dispatched :: "conn_state \<Rightarrow> nat list" where
  "dispatched st = map snd (emitted st)"

text \<open>
  The condition of the specification for a dispatch, read on the stream of records: a request
  is \<open>terminated\<close> in a stream when, after its \<^verbatim>\<open>BEGIN_REQUEST\<close>, the stream holds an empty
  \<^verbatim>\<open>PARAMS\<close> record and an empty \<^verbatim>\<open>STDIN\<close> record of its id. A stream is \<open>well_formed\<close> when
  it opens every request id at most once and holds \<^verbatim>\<open>BEGIN_REQUEST\<close>, \<^verbatim>\<open>PARAMS\<close> and
  \<^verbatim>\<open>STDIN\<close> records only. \<open>expect\<close> is the same condition from a state in which the request
  may already be open.
\<close>

definition is_end_of :: "nat \<Rightarrow> nat \<Rightarrow> fcgi_header \<times> byte list \<Rightarrow> bool" where
  "is_end_of ty rid item =
     (h_type (fst item) = ty \<and> h_requestId (fst item) = rid \<and> snd item = [])"

fun after_begin :: "nat \<Rightarrow> (fcgi_header \<times> byte list) list \<Rightarrow> (fcgi_header \<times> byte list) list option" where
  "after_begin rid [] = None"
| "after_begin rid (item # rest) =
     (if h_type (fst item) = FCGI_BEGIN_REQUEST \<and> h_requestId (fst item) = rid then Some rest
      else after_begin rid rest)"

definition terminated :: "(fcgi_header \<times> byte list) list \<Rightarrow> nat \<Rightarrow> bool" where
  "terminated records rid =
     (case after_begin rid records of
        None \<Rightarrow> False
      | Some rest \<Rightarrow>
          list_ex (is_end_of FCGI_PARAMS rid) rest \<and> list_ex (is_end_of FCGI_STDIN rid) rest)"

definition well_formed :: "(fcgi_header \<times> byte list) list \<Rightarrow> bool" where
  "well_formed records =
     (distinct (begin_ids records) \<and>
      list_all (\<lambda>item. h_type (fst item) = FCGI_BEGIN_REQUEST \<or>
                        h_type (fst item) = FCGI_PARAMS \<or>
                        h_type (fst item) = FCGI_STDIN) records)"

definition expect :: "conn_state \<Rightarrow> (fcgi_header \<times> byte list) list \<Rightarrow> nat \<Rightarrow> bool" where
  "expect st records rid =
     (case requests st rid of
        Some req \<Rightarrow>
          (req_paramsComplete req \<or> list_ex (is_end_of FCGI_PARAMS rid) records) \<and>
          (req_stdinComplete req \<or> list_ex (is_end_of FCGI_STDIN rid) records)
      | None \<Rightarrow> terminated records rid)"

text \<open>
  For the statement that the role of a request is never looked at: \<open>as_responder\<close> is the
  state in which every pending request has the role of a responder, the rest of the state
  unchanged; \<open>responder_record\<close> is a record with the role of a responder written into the
  first two bytes of the body of a \<^verbatim>\<open>BEGIN_REQUEST\<close>, any other record unchanged;
  \<open>as_responder_result\<close> is an outcome of \<^verbatim>\<open>_processRecord\<close>, returned or thrown, with
  \<open>as_responder\<close> of its state.
\<close>

definition as_responder :: "conn_state \<Rightarrow> conn_state" where
  "as_responder st =
     st\<lparr>requests := (\<lambda>rid. map_option (\<lambda>req. req\<lparr>req_role := FCGI_RESPONDER\<rparr>) (requests st rid))\<rparr>"

definition responder_body :: "fcgi_header \<Rightarrow> byte list \<Rightarrow> byte list" where
  "responder_body header content =
     (if h_type header = FCGI_BEGIN_REQUEST \<and> 2 \<le> length content
      then 0 # of_nat FCGI_RESPONDER # drop 2 content
      else content)"

definition responder_record :: "fcgi_header \<times> byte list \<Rightarrow> fcgi_header \<times> byte list" where
  "responder_record item = (fst item, responder_body (fst item) (snd item))"

definition as_responder_result :: "conn_state result \<Rightarrow> conn_state result" where
  "as_responder_result res =
     (case res of
        Inl (e, st) \<Rightarrow> Inl (e, as_responder st)
      | Inr st \<Rightarrow> Inr (as_responder st))"

section \<open>Properties\<close>

subsection \<open>The envelope written by \<^verbatim>\<open>FCGIResponse.end\<close>\<close>

lemma concat_split_chunks: "concat (split_chunks data) = data"
  by (induction data rule: split_chunks.induct) (subst split_chunks.simps, simp)

lemma split_chunks_bounds: "c \<in> set (split_chunks data) \<Longrightarrow> 0 < length c \<and> length c \<le> 65535"
proof (induction data rule: split_chunks.induct)
  case (1 data)
  show ?case
  proof (cases "data = []")
    case True
    with "1.prems" show ?thesis by (subst (asm) split_chunks.simps) simp
  next
    case False
    from "1.prems" have "c = take 65535 data \<or> c \<in> set (split_chunks (drop 65535 data))"
      by (subst (asm) split_chunks.simps) (simp add: False)
    then show ?thesis using False "1.IH" by auto
  qed
qed

lemma buildHeader_ok:
  "type \<le> 255 \<Longrightarrow> rid \<le> 65535 \<Longrightarrow> n \<le> 65535 \<Longrightarrow> p \<le> 255 \<Longrightarrow>
   buildHeader type rid n p =
     Inr [1, of_nat type, of_nat (rid div 256), of_nat (rid mod 256),
          of_nat (n div 256), of_nat (n mod 256), of_nat p, 0]"
  by (simp add: buildHeader_def FCGI_VERSION_1_def)

lemma min_step_less: "(offset::nat) < n \<Longrightarrow> n - (offset + min 65535 (n - offset)) < n - offset"
  by arith

lemma drop_min_step: "(offset::nat) < length xs \<Longrightarrow> drop (offset + min 65535 (length xs - offset)) xs = drop 65535 (drop offset xs)"
proof (cases "65535 \<le> length xs - offset")
  case True
  then show ?thesis by (simp add: min_def add.commute)
next
  case False
  then have "min 65535 (length xs - offset) = length xs - offset" by simp
  moreover assume "offset < length xs"
  ultimately show ?thesis using False by simp
qed

lemma pad_le: "(8 - n mod 8) mod 8 \<le> (255::nat)"
  by (rule order_trans [of _ 8]) simp_all

lemma buildStreamRecord_loop_step:
  assumes "offset < length data" "type \<le> 255" "rid \<le> 65535"
  shows "buildStreamRecord_loop type rid data offset chunks =
     buildStreamRecord_loop type rid data (offset + min 65535 (length data - offset))
       (chunks @ [take 8 (stream_record type rid (take 65535 (drop offset data))),
                  take 65535 (drop offset data),
                  replicate ((8 - min 65535 (length data - offset) mod 8) mod 8) 0])"
proof -
  have len: "length (take 65535 (drop offset data)) = min 65535 (length data - offset)"
    by simp
  have hd: "buildHeader type rid (min 65535 (length data - offset))
               ((8 - min 65535 (length data - offset) mod 8) mod 8) =
            Inr (take 8 (stream_record type rid (take 65535 (drop offset data))))"
    using assms(2,3) pad_le
    by (simp only: stream_record_def len buildHeader_ok min.cobounded1) simp
  have tk: "take (min 65535 (length data - offset)) (drop offset data) = take 65535 (drop offset data)"
    by (simp add: min_def)
  show ?thesis
    by (subst buildStreamRecord_loop.simps) (simp only: assms(1) if_True Let_def hd tk sum.case)
qed

lemma buildStreamRecord_loop_done:
  "\<not> offset < length data \<Longrightarrow> buildStreamRecord_loop type rid data offset chunks = Inr chunks"
  by (subst buildStreamRecord_loop.simps) simp

lemma split_chunks_Nil: "split_chunks [] = []"
  by (subst split_chunks.simps) simp

lemma split_chunks_Cons:
  "data \<noteq> [] \<Longrightarrow> split_chunks data = take 65535 data # split_chunks (drop 65535 data)"
  by (subst split_chunks.simps) simp

lemma stream_record_parts:
  "stream_record type rid c =
     take 8 (stream_record type rid c) @ c @ replicate ((8 - length c mod 8) mod 8) 0"
  by (simp add: stream_record_def)

lemma buildStreamRecord_loop_chunks:
  assumes "type \<le> 255" "rid \<le> 65535"
  shows "\<exists>out. buildStreamRecord_loop type rid data offset chunks = Inr out \<and>
     concat out = concat chunks @
       concat (map (stream_record type rid) (split_chunks (drop offset data)))"
proof (induction "length data - offset" arbitrary: offset chunks rule: less_induct)
  case less
  show ?case
  proof (cases "offset < length data")
    case False
    then show ?thesis
      by (simp add: buildStreamRecord_loop_done split_chunks_Nil)
  next
    case True
    let ?n = "min 65535 (length data - offset)"
    let ?c = "take 65535 (drop offset data)"
    let ?chunks' = "chunks @ [take 8 (stream_record type rid ?c), ?c,
                      replicate ((8 - ?n mod 8) mod 8) 0]"
    have smaller: "length data - (offset + ?n) < length data - offset"
      using True by (rule min_step_less)
    from less [OF smaller, of ?chunks']
    obtain out where out: "buildStreamRecord_loop type rid data (offset + ?n) ?chunks' = Inr out"
      and cat: "concat out = concat ?chunks' @
          concat (map (stream_record type rid) (split_chunks (drop (offset + ?n) data)))"
      by blast
    have step: "buildStreamRecord_loop type rid data offset chunks = Inr out"
      using buildStreamRecord_loop_step [OF True assms] out by simp
    have ne: "drop offset data \<noteq> []"
      using True by simp
    have rest: "drop (offset + ?n) data = drop 65535 (drop offset data)"
      using True by (rule drop_min_step)
    have len: "length ?c = ?n" by simp
    have one: "concat [take 8 (stream_record type rid ?c), ?c, replicate ((8 - ?n mod 8) mod 8) 0]
                 = stream_record type rid ?c"
      using stream_record_parts [of type rid ?c] by (simp only: len concat.simps append_Nil2)
    have "concat out = concat chunks @ stream_record type rid ?c @
            concat (map (stream_record type rid) (split_chunks (drop 65535 (drop offset data))))"
      using cat one by (simp only: concat_append rest append_assoc)
    then show ?thesis
      using step by (simp add: split_chunks_Cons [OF ne])
  qed
qed

lemma pad_small: "m < 8 \<Longrightarrow> (m + (8 - m) mod 8) mod 8 = (0::nat)"
proof (cases "m = 0")
  case True
  then show ?thesis by simp
next
  case False
  assume "m < 8"
  with False have "(8 - m) mod 8 = 8 - m" by simp
  moreover have "m + (8 - m) = 8" using \<open>m < 8\<close> by simp
  ultimately show ?thesis by simp
qed

lemma pad_aligned: "(8 + (n + (8 - n mod 8) mod 8)) mod 8 = (0::nat)"
proof -
  have "(n + (8 - n mod 8) mod 8) mod 8 = (n mod 8 + (8 - n mod 8) mod 8) mod 8"
    by (simp add: mod_add_left_eq)
  also have "\<dots> = 0" by (rule pad_small) simp
  finally show ?thesis by simp
qed

lemma stream_record_aligned: "length (stream_record type rid c) mod 8 = 0"
  using pad_aligned [of "length c"] by (simp add: stream_record_def)

lemma buildStreamRecord_chunks:
  assumes "type \<le> 255" "rid \<le> 65535"
  shows "buildStreamRecord type rid data =
           Inr (concat (map (stream_record type rid) (split_chunks data)))"
proof -
  from buildStreamRecord_loop_chunks [OF assms, of data 0 "[]"]
  obtain out where "buildStreamRecord_loop type rid data 0 [] = Inr out"
    and "concat out = concat (map (stream_record type rid) (split_chunks data))"
    by auto
  then show ?thesis by (simp add: buildStreamRecord_def)
qed

lemma buildEndRequest_ok:
  "rid \<le> 65535 \<Longrightarrow> buildEndRequest rid 0 0 = Inr (end_request_record rid 0 0)"
  by (simp add: buildEndRequest_def buildHeader_ok end_request_record_def FCGI_END_REQUEST_def)

lemma FCGIResponse_write_frame:
  "socket (FCGIResponse_write r c) = socket r \<and>
   requestId (FCGIResponse_write r c) = requestId r \<and>
   finished (FCGIResponse_write r c) = finished r"
  by (simp add: FCGIResponse_write_def Let_def split: chunk.splits)

lemma FCGIResponse_write_buffer:
  "concat (buffer (FCGIResponse_write r c)) = response_bytes r (Some c)"
  by (simp add: FCGIResponse_write_def response_bytes_def Let_def split: chunk.splits)

lemma end_buffered_frame:
  "socket (end_buffered r data) = socket r"
  "requestId (end_buffered r data) = requestId r"
  "finished (end_buffered r data) = finished r"
  "headers (end_buffered r data) = headers r"
  "statusCode (end_buffered r data) = statusCode r"
  by (simp_all add: end_buffered_def FCGIResponse_write_def Let_def
        split: option.splits chunk.splits)

lemma end_buffered_bytes: "concat (buffer (end_buffered r data)) = response_bytes r data"
  by (cases data)
     (simp_all add: end_buffered_def FCGIResponse_write_buffer, simp add: response_bytes_def)

lemma end_buffered_headersSent: "headersSent (end_buffered r data)"
  by (simp add: end_buffered_def FCGIResponse_write_def Let_def split: option.splits chunk.splits)

lemma end_buffered_fresh_None:
  "end_buffered (FCGIResponse_new sock rid) None =
     (FCGIResponse_new sock rid)
       \<lparr>buffer := [FCGIResponse_buildHeaders (FCGIResponse_new sock rid)], headersSent := True\<rparr>"
  by (simp add: end_buffered_def FCGIResponse_new_def)

lemma FCGIResponse_end_result:
  assumes "\<not> finished r" and "requestId r \<le> 65535"
  shows "FCGIResponse_end r data =
           Inr ((end_buffered r data)
                  \<lparr>socket := socket r @
                     (if response_bytes r data = [] then []
                      else [concat (map (stream_record FCGI_STDOUT (requestId r))
                                      (split_chunks (response_bytes r data)))]) @
                     [stream_record FCGI_STDOUT (requestId r) [],
                      end_request_record (requestId r) 0 FCGI_REQUEST_COMPLETE],
                   finished := True\<rparr>)"
proof -
  let ?r1 = "end_buffered r data"
  have rid: "requestId ?r1 \<le> 65535" using assms(2) by (simp add: end_buffered_frame)
  have recs: "buildStreamRecord FCGI_STDOUT (requestId r) (response_bytes r data) =
          Inr (concat (map (stream_record FCGI_STDOUT (requestId r))
                 (split_chunks (response_bytes r data))))"
    using buildStreamRecord_chunks [of FCGI_STDOUT "requestId r"] assms(2)
    by (simp add: FCGI_STDOUT_def)
  have empty: "buildHeader FCGI_STDOUT (requestId r) 0 0 =
                 Inr (stream_record FCGI_STDOUT (requestId r) [])"
    using assms(2) by (simp add: buildHeader_ok stream_record_def FCGI_STDOUT_def)
  have fin: "buildEndRequest (requestId r) 0 FCGI_REQUEST_COMPLETE =
               Inr (end_request_record (requestId r) 0 FCGI_REQUEST_COMPLETE)"
    using assms(2) by (simp add: buildEndRequest_ok FCGI_REQUEST_COMPLETE_def)
  show ?thesis
    unfolding FCGIResponse_end_def end_buffered_def [symmetric] Let_def
    using assms(1) recs empty fin
    by (cases "response_bytes r data = []")
       (simp_all add: end_buffered_frame end_buffered_bytes)
qed

text \<open>
  Claim C2. On a FastCGI response that is not finished, with a request id that fits 16
  bits, \<^verbatim>\<open>end\<close> returns, marks the response finished and appends to the socket: the
  byte sequence of the response (buffered writes, header block, final chunk) cut into
  pieces of 1 to 65,535 bytes, each framed as one \<^verbatim>\<open>STDOUT\<close> record with padding
  \<open>(8 - content_length mod 8) mod 8\<close> of zero bytes (so that every record is a multiple of
  8 bytes long); then one \<^verbatim>\<open>STDOUT\<close> record of content length 0; then one
  \<^verbatim>\<open>END_REQUEST\<close> record with application status 0 and protocol status
  \<^verbatim>\<open>REQUEST_COMPLETE\<close>.
\<close>

theorem FCGIResponse_end_envelope:
  assumes "\<not> finished r" and "requestId r \<le> 65535"
  shows "\<exists>r'. FCGIResponse_end r data = Inr r' \<and> finished r' \<and>
           concat (socket r') =
             concat (socket r) @
             concat (map (stream_record FCGI_STDOUT (requestId r))
                       (split_chunks (response_bytes r data))) @
             stream_record FCGI_STDOUT (requestId r) [] @
             end_request_record (requestId r) 0 FCGI_REQUEST_COMPLETE \<and>
           concat (split_chunks (response_bytes r data)) = response_bytes r data \<and>
           (\<forall>c \<in> set (split_chunks (response_bytes r data)).
              0 < length c \<and> length c \<le> 65535 \<and>
              length (stream_record FCGI_STDOUT (requestId r) c) mod 8 = 0)"
proof -
  have "\<forall>c \<in> set (split_chunks (response_bytes r data)).
              0 < length c \<and> length c \<le> 65535 \<and>
              length (stream_record FCGI_STDOUT (requestId r) c) mod 8 = 0"
    using split_chunks_bounds stream_record_aligned by blast
  then show ?thesis
    using FCGIResponse_end_result [OF assms, of data]
    by (simp add: concat_split_chunks split_chunks_Nil)
qed

text \<open>The hypotheses of C2 hold of a fresh response for request 1, ended with a string.\<close>

theorem FCGIResponse_end_envelope_witness:
  "\<not> finished (FCGIResponse_new [] 1) \<and> requestId (FCGIResponse_new [] 1) \<le> 65535 \<and>
   (\<exists>r'. FCGIResponse_end (FCGIResponse_new [] 1) (Some (Str ''hi'')) = Inr r' \<and> finished r' \<and>
      concat (socket r') =
        concat (map (stream_record FCGI_STDOUT 1)
                  (split_chunks (response_bytes (FCGIResponse_new [] 1) (Some (Str ''hi''))))) @
        stream_record FCGI_STDOUT 1 [] @ end_request_record 1 0 FCGI_REQUEST_COMPLETE)"
proof -
  have fresh: "\<not> finished (FCGIResponse_new [] 1)" "requestId (FCGIResponse_new [] 1) \<le> 65535"
    by (simp_all add: FCGIResponse_new_def)
  have sel: "requestId (FCGIResponse_new [] 1) = 1" "socket (FCGIResponse_new [] 1) = []"
    by (simp_all add: FCGIResponse_new_def)
  from FCGIResponse_end_envelope [OF fresh, of "Some (Str ''hi'')"]
  obtain r' where "FCGIResponse_end (FCGIResponse_new [] 1) (Some (Str ''hi'')) = Inr r'"
    "finished r'"
    "concat (socket r') =
        concat (socket (FCGIResponse_new [] 1)) @
        concat (map (stream_record FCGI_STDOUT (requestId (FCGIResponse_new [] 1)))
                  (split_chunks (response_bytes (FCGIResponse_new [] 1) (Some (Str ''hi''))))) @
        stream_record FCGI_STDOUT (requestId (FCGIResponse_new [] 1)) [] @
        end_request_record (requestId (FCGIResponse_new [] 1)) 0 FCGI_REQUEST_COMPLETE"
    by blast
  then show ?thesis
    using fresh by (simp only: sel concat.simps append_Nil) blast
qed

text \<open>
  Claim C9. \<^verbatim>\<open>FCGIResponse.write\<close> leaves the socket as it is: it appends to the buffer
  in memory the header block (when the headers are not yet marked as sent) and the chunk
  (a string or a \<^verbatim>\<open>Buffer\<close>). Neither do \<^verbatim>\<open>status\<close>, \<^verbatim>\<open>set\<close>, \<^verbatim>\<open>type\<close> and \<^verbatim>\<open>cookie\<close>
  touch the socket, and \<^verbatim>\<open>end\<close> on a finished response changes nothing: the socket is written
  only by the first \<^verbatim>\<open>end\<close>.
\<close>

theorem FCGIResponse_write_no_socket_io:
  "socket (FCGIResponse_write r chunk) = socket r \<and>
   buffer (FCGIResponse_write r chunk) =
     buffer r @ (if headersSent r then [] else [FCGIResponse_buildHeaders r]) @
     (case chunk of Str s \<Rightarrow> [Buffer_from s] | Buf b \<Rightarrow> [b] | Other s \<Rightarrow> []) \<and>
   socket (FCGIResponse_status r code) = socket r \<and>
   socket (FCGIResponse_set r name v) = socket r \<and>
   socket (FCGIResponse_set_object r obj) = socket r \<and>
   socket (FCGIResponse_type r contentType) = socket r \<and>
   socket (FCGIResponse_cookie r name val options) = socket r \<and>
   (finished r \<longrightarrow> FCGIResponse_end r data = Inr r)"
  by (simp add: FCGIResponse_write_def FCGIResponse_status_def FCGIResponse_set_def
        FCGIResponse_set_object_def FCGIResponse_type_def FCGIResponse_cookie_def
        FCGIResponse_end_def Let_def
      split: chunk.splits)

text \<open>C9 at a finished response: \<^verbatim>\<open>end\<close> with a late chunk changes nothing.\<close>

theorem FCGIResponse_write_no_socket_io_witness:
  "finished ((FCGIResponse_new [] 1)\<lparr>finished := True\<rparr>) \<and>
   FCGIResponse_end ((FCGIResponse_new [] 1)\<lparr>finished := True\<rparr>) (Some (Str ''late'')) =
     Inr ((FCGIResponse_new [] 1)\<lparr>finished := True\<rparr>)"
proof -
  have fin: "finished ((FCGIResponse_new [] 1)\<lparr>finished := True\<rparr>)"
    by simp
  from FCGIResponse_write_no_socket_io
         [where r = "(FCGIResponse_new [] 1)\<lparr>finished := True\<rparr>"
            and data = "Some (Str ''late'')"]
  have "finished ((FCGIResponse_new [] 1)\<lparr>finished := True\<rparr>) \<longrightarrow>
        FCGIResponse_end ((FCGIResponse_new [] 1)\<lparr>finished := True\<rparr>) (Some (Str ''late'')) =
          Inr ((FCGIResponse_new [] 1)\<lparr>finished := True\<rparr>)"
    by blast
  with fin show ?thesis by blast
qed

subsection \<open>The content type of a fresh response\<close>

lemma get_prop_set_prop_other:
  "name \<noteq> k \<Longrightarrow> get_prop (set_prop h name v) k = get_prop h k"
  by (induction h) (auto simp: get_prop_def)

lemma get_prop_set_prop_same:
  "get_prop (set_prop h name v) name = Some v"
  by (induction h) (auto simp: get_prop_def)

lemma get_prop_split:
  "get_prop h name = Some v \<Longrightarrow> \<exists>h1 h2. h = h1 @ (name, v) # h2"
  unfolding get_prop_def
  by (metis map_of_SomeD split_list)

lemma FCGIResponse_buildHeaders_line:
  assumes "get_prop (headers r) name = Some v"
  shows "\<exists>pre post. FCGIResponse_buildHeaders r =
           Buffer_from (pre @ name @ '': '' @ template_hval v @ CRLF @ post)"
proof -
  from get_prop_split [OF assms] obtain h1 h2 where h: "headers r = h1 @ (name, v) # h2"
    by blast
  let ?line = "\<lambda>(name, v). name @ '': '' @ template_hval v @ CRLF"
  have "FCGIResponse_buildHeaders r =
          Buffer_from ((status_line FCGI_STATUS_MESSAGES (statusCode r) @ concat (map ?line h1)) @
            name @ '': '' @ template_hval v @ CRLF @
            (concat (map ?line h2) @
             concat (map (\<lambda>cookie. ''Set-Cookie: '' @ cookie @ CRLF) (cookies r)) @ CRLF))"
    by (simp add: FCGIResponse_buildHeaders_def h)
  then show ?thesis by blast
qed

lemma Response_writeHeaders_line:
  assumes "get_prop (headers r) name = Some (HStr v)" and "\<not> headersSent r"
  shows "Buffer_from (name @ '': '' @ v @ CRLF) \<in> set (stdout (Response_writeHeaders r))"
proof -
  from get_prop_split [OF assms(1)] obtain h1 h2 where h: "headers r = h1 @ (name, HStr v) # h2"
    by blast
  show ?thesis
    using assms(2) by (simp add: Response_writeHeaders_def h)
qed

lemma show_nat_200: "show_nat 200 = ''200''"
  by code_simp

text \<open>
  Claim C10. Both constructors set \<^verbatim>\<open>Content-Type\<close> to \<^verbatim>\<open>text/html; charset=utf-8\<close>, and
  the header block of a fresh response of either class has that line. Setting a header of
  another name keeps the entry, and a response that holds a string under
  \<^verbatim>\<open>Content-Type\<close> serialises it as a line of its header block. On a fresh \<^verbatim>\<open>Response\<close>
  the test \<^verbatim>\<open>!this._headers['Content-Type']\<close> of \<^verbatim>\<open>send\<close> is false, so \<^verbatim>\<open>send\<close> of a
  string or of a \<^verbatim>\<open>Buffer\<close> is \<^verbatim>\<open>end\<close> of it and neither default is applied
  (\<^verbatim>\<open>FCGIResponse.send\<close> has no such test).
\<close>

theorem default_content_type:
  "headers (Response_new out) = [(''Content-Type'', HStr ''text/html; charset=utf-8'')] \<and>
   headers (FCGIResponse_new sock rid) = [(''Content-Type'', HStr ''text/html; charset=utf-8'')] \<and>
   FCGIResponse_buildHeaders (FCGIResponse_new sock rid) =
     Buffer_from (''Status: 200 OK'' @ CRLF @
                  ''Content-Type: text/html; charset=utf-8'' @ CRLF @ CRLF) \<and>
   stdout (Response_writeHeaders (Response_new out)) =
     out @ map Buffer_from [''Status: 200 OK'' @ CRLF,
                            ''Content-Type: text/html; charset=utf-8'' @ CRLF, CRLF] \<and>
   (name \<noteq> ''Content-Type'' \<longrightarrow>
      get_prop (set_prop h name v) ''Content-Type'' = get_prop h ''Content-Type'') \<and>
   (get_prop (headers r) ''Content-Type'' = Some (HStr ct) \<longrightarrow>
      (\<exists>pre post. FCGIResponse_buildHeaders r =
         Buffer_from (pre @ ''Content-Type: '' @ ct @ CRLF @ post))) \<and>
   (get_prop (headers q) ''Content-Type'' = Some (HStr ct) \<and> \<not> headersSent q \<longrightarrow>
      Buffer_from (''Content-Type: '' @ ct @ CRLF) \<in> set (stdout (Response_writeHeaders q))) \<and>
   \<not> content_type_unset (Response_new out) \<and>
   Response_send (Response_new out) (String s) = Response_end (Response_new out) (Some (Str s)) \<and>
   Response_send (Response_new out) (Buffer b) = Response_end (Response_new out) (Some (Buf b))"
proof -
  have "FCGIResponse_buildHeaders (FCGIResponse_new sock rid) =
     Buffer_from (''Status: 200 OK'' @ CRLF @
                  ''Content-Type: text/html; charset=utf-8'' @ CRLF @ CRLF)"
    by (simp add: FCGIResponse_buildHeaders_def FCGIResponse_new_def status_line_def
          FCGI_STATUS_MESSAGES_def show_nat_200)
  moreover have "stdout (Response_writeHeaders (Response_new out)) =
     out @ map Buffer_from [''Status: 200 OK'' @ CRLF,
                            ''Content-Type: text/html; charset=utf-8'' @ CRLF, CRLF]"
    by (simp add: Response_writeHeaders_def Response_new_def status_line_def
          STATUS_MESSAGES_def show_nat_200)
  moreover have "\<not> content_type_unset (Response_new out)"
    by (simp add: content_type_unset_def Response_new_def get_prop_def)
  moreover have "get_prop (headers r) ''Content-Type'' = Some (HStr ct) \<longrightarrow>
      (\<exists>pre post. FCGIResponse_buildHeaders r =
         Buffer_from (pre @ ''Content-Type: '' @ ct @ CRLF @ post))"
    using FCGIResponse_buildHeaders_line [of r "''Content-Type''" "HStr ct"] by simp
  moreover have "get_prop (headers q) ''Content-Type'' = Some (HStr ct) \<and> \<not> headersSent q \<longrightarrow>
      Buffer_from (''Content-Type: '' @ ct @ CRLF) \<in> set (stdout (Response_writeHeaders q))"
    using Response_writeHeaders_line [of q "''Content-Type''" ct] by simp
  ultimately show ?thesis
    by (simp add: get_prop_set_prop_other) (simp add: Response_new_def FCGIResponse_new_def)
qed

text \<open>C10 on fresh responses, after a header of another name was set.\<close>

theorem default_content_type_witness:
  "''X-Powered-By'' \<noteq> ''Content-Type'' \<and>
   get_prop (set_prop (headers (Response_new [])) ''X-Powered-By'' (HStr ''node''))
      ''Content-Type'' = Some (HStr ''text/html; charset=utf-8'') \<and>
   \<not> headersSent (Response_new []) \<and>
   Buffer_from (''Content-Type: '' @ ''text/html; charset=utf-8'' @ CRLF)
     \<in> set (stdout (Response_writeHeaders (Response_new []))) \<and>
   (\<exists>pre post. FCGIResponse_buildHeaders (FCGIResponse_new [] 1) =
         Buffer_from (pre @ ''Content-Type: '' @ ''text/html; charset=utf-8'' @ CRLF @ post))"
proof -
  have a: "get_prop (headers (Response_new [])) ''Content-Type'' =
             Some (HStr ''text/html; charset=utf-8'')"
    "get_prop (headers (FCGIResponse_new [] 1)) ''Content-Type'' =
             Some (HStr ''text/html; charset=utf-8'')"
    "\<not> headersSent (Response_new [])"
    "''X-Powered-By'' \<noteq> ''Content-Type''"
    by (simp_all add: Response_new_def FCGIResponse_new_def get_prop_def)
  note T = default_content_type
         [of "[]" "[]" 1 "''X-Powered-By''" "headers (Response_new [])" "HStr ''node''"
             "FCGIResponse_new [] 1" "''text/html; charset=utf-8''" "Response_new []"]
  have "get_prop (set_prop (headers (Response_new [])) ''X-Powered-By'' (HStr ''node''))
          ''Content-Type'' = get_prop (headers (Response_new [])) ''Content-Type''"
    using T a(4) by blast
  then have kept: "get_prop (set_prop (headers (Response_new [])) ''X-Powered-By'' (HStr ''node''))
          ''Content-Type'' = Some (HStr ''text/html; charset=utf-8'')"
    using a(1) by simp
  have fcgi: "\<exists>pre post. FCGIResponse_buildHeaders (FCGIResponse_new [] 1) =
         Buffer_from (pre @ ''Content-Type: '' @ ''text/html; charset=utf-8'' @ CRLF @ post)"
    using T a(2) by blast
  have cgi: "Buffer_from (''Content-Type: '' @ ''text/html; charset=utf-8'' @ CRLF)
     \<in> set (stdout (Response_writeHeaders (Response_new [])))"
    using T a(1,3) by blast
  show ?thesis
    using a(4) kept a(3) cgi fcgi by blast
qed

text \<open>
  The defaults of \<^verbatim>\<open>send\<close> are reached once the handler has removed the header, as the
  test suite does before it sends a \<^verbatim>\<open>Buffer\<close>.
\<close>

lemma send_default_after_removeHeader:
  "content_type_unset (Response_removeHeader (Response_new out) ''Content-Type'')"
  by (simp add: content_type_unset_def Response_removeHeader_def Response_new_def get_prop_def)

subsection \<open>Where \<^verbatim>\<open>FCGIResponse\<close> and \<^verbatim>\<open>Response\<close> differ\<close>

text \<open>
  \<^verbatim>\<open>Response\<close> does both: \<^verbatim>\<open>write\<close> on a finished response throws and leaves the object
  as it is, and \<^verbatim>\<open>json\<close> on a response that has not sent its headers sets
  \<^verbatim>\<open>Content-Length\<close> to the byte length of the body it ends with.
\<close>

lemma Response_write_finished:
  "finished r \<Longrightarrow>
   Response_write r chunk = Inl (Error ''Cannot write after response finished'', r)"
  by (simp add: Response_write_def)

lemma Response_json_sets_length:
  assumes "\<not> headersSent r" and "\<not> finished r"
  shows "\<exists>r'. Response_json r (JSON_text body) = Inr r' \<and> finished r' \<and>
           get_prop (headers r') ''Content-Type'' =
             Some (HStr ''application/json; charset=utf-8'') \<and>
           get_prop (headers r') ''Content-Length'' = Some (HNum (length body)) \<and>
           last (stdout r') = Buffer_from body"
  using assms
  by (simp add: Response_json_def Response_type_def Response_set_def Response_types_def
        Response_end_def Response_write_def Response_writeHeaders_def get_prop_def
        get_prop_set_prop_same [unfolded get_prop_def]
        get_prop_set_prop_other [unfolded get_prop_def])

text \<open>
  Claim C7, at the input where the two classes part. A fresh \<^verbatim>\<open>FCGIResponse\<close> for
  request 1 is ended, then \<^verbatim>\<open>write('more')\<close> is called: the call returns the object with
  the chunk pushed on its buffer, nothing is thrown (a later \<^verbatim>\<open>end\<close> changes nothing, so
  the chunk never reaches the socket). On a \<^verbatim>\<open>Response\<close> the same calls end in
  \<^verbatim>\<open>Error('Cannot write after response finished')\<close>, the object unchanged.
\<close>

theorem FCGIResponse_write_after_end:
  "(case FCGIResponse_end (FCGIResponse_new [] 1) None of
      Inl thrown \<Rightarrow> False
    | Inr r \<Rightarrow>
        finished r \<and>
        FCGIResponse_write r (Str ''more'') = r\<lparr>buffer := buffer r @ [Buffer_from ''more'']\<rparr> \<and>
        FCGIResponse_end (FCGIResponse_write r (Str ''more'')) None =
          Inr (FCGIResponse_write r (Str ''more''))) \<and>
   (case Response_end (Response_new []) None of
      Inl thrown \<Rightarrow> False
    | Inr r \<Rightarrow>
        finished r \<and>
        Response_write r (Str ''more'') =
          Inl (Error ''Cannot write after response finished'', r))"
proof -
  have "\<not> finished (FCGIResponse_new [] 1)" "requestId (FCGIResponse_new [] 1) \<le> 65535"
    by (simp_all add: FCGIResponse_new_def)
  from FCGIResponse_end_result [OF this, of None]
  have "case FCGIResponse_end (FCGIResponse_new [] 1) None of
      Inl thrown \<Rightarrow> False
    | Inr r \<Rightarrow>
        finished r \<and>
        FCGIResponse_write r (Str ''more'') = r\<lparr>buffer := buffer r @ [Buffer_from ''more'']\<rparr> \<and>
        FCGIResponse_end (FCGIResponse_write r (Str ''more'')) None =
          Inr (FCGIResponse_write r (Str ''more''))"
    by (simp add: FCGIResponse_write_def FCGIResponse_end_def end_buffered_headersSent)
  moreover have "case Response_end (Response_new []) None of
      Inl thrown \<Rightarrow> False
    | Inr r \<Rightarrow>
        finished r \<and>
        Response_write r (Str ''more'') =
          Inl (Error ''Cannot write after response finished'', r)"
    by (simp add: Response_end_def Response_new_def Response_write_def)
  ultimately show ?thesis by blast
qed

text \<open>
  Claim C6, at the input where the two classes part. \<^verbatim>\<open>json({message: 'hi'})\<close> on a fresh
  \<^verbatim>\<open>FCGIResponse\<close> ends the response with the \<^verbatim>\<open>Content-Type\<close> of JSON and the
  serialisation as body, but sets no \<^verbatim>\<open>Content-Length\<close>: the header block that is sent
  has the status line and the \<^verbatim>\<open>Content-Type\<close> line only. On a fresh \<^verbatim>\<open>Response\<close> the
  same call sets \<^verbatim>\<open>Content-Length\<close> to 16, the byte length of the body.
\<close>

theorem FCGIResponse_json_headers:
  \<open>(case FCGIResponse_json (FCGIResponse_new [] 1) (JSON_text ''{"message":"hi"}'') of
      Inl thrown \<Rightarrow> False
    | Inr r \<Rightarrow>
        finished r \<and>
        headers r = [(''Content-Type'', HStr ''application/json; charset=utf-8'')] \<and>
        get_prop (headers r) ''Content-Length'' = None \<and>
        buffer r =
          [Buffer_from (''Status: 200 OK'' @ CRLF @
                        ''Content-Type: application/json; charset=utf-8'' @ CRLF @ CRLF),
           Buffer_from ''{"message":"hi"}'']) \<and>
   (case Response_json (Response_new []) (JSON_text ''{"message":"hi"}'') of
      Inl thrown \<Rightarrow> False
    | Inr r \<Rightarrow>
        finished r \<and>
        headers r = [(''Content-Type'', HStr ''application/json; charset=utf-8''),
                     (''Content-Length'', HNum 16)])\<close>
proof -
  let ?r = "\<lparr>statusCode = 200,
             headers = [(''Content-Type'', HStr ''application/json; charset=utf-8'')],
             headersSent = False, finished = False, cookies = [],
             socket = [], requestId = 1, buffer = []\<rparr> :: fcgi_response"
  let ?body = \<open>''{"message":"hi"}''\<close>
  have typed: "FCGIResponse_type (FCGIResponse_new [] 1) ''json'' = ?r"
    by (simp add: FCGIResponse_type_def FCGIResponse_set_def FCGIResponse_new_def
          FCGIResponse_types_def get_prop_def)
  have buffered: "end_buffered ?r (Some (Str ?body)) =
      ?r\<lparr>buffer := [Buffer_from (''Status: 200 OK'' @ CRLF @
                        ''Content-Type: application/json; charset=utf-8'' @ CRLF @ CRLF),
                      Buffer_from ?body],
          headersSent := True\<rparr>"
    by (simp add: end_buffered_def FCGIResponse_write_def
          FCGIResponse_buildHeaders_def status_line_def FCGI_STATUS_MESSAGES_def show_nat_200)
  have "\<not> finished ?r" "requestId ?r \<le> 65535"
    by simp_all
  from FCGIResponse_end_result [OF this, of "Some (Str ?body)"]
  have ended: "\<exists>sock. FCGIResponse_end ?r (Some (Str ?body)) =
      Inr (?r\<lparr>buffer := [Buffer_from (''Status: 200 OK'' @ CRLF @
                        ''Content-Type: application/json; charset=utf-8'' @ CRLF @ CRLF),
                      Buffer_from ?body],
          headersSent := True, socket := sock, finished := True\<rparr>)"
    by (simp only: buffered) simp
  have \<open>case FCGIResponse_json (FCGIResponse_new [] 1) (JSON_text ''{"message":"hi"}'') of
      Inl thrown \<Rightarrow> False
    | Inr r \<Rightarrow>
        finished r \<and>
        headers r = [(''Content-Type'', HStr ''application/json; charset=utf-8'')] \<and>
        get_prop (headers r) ''Content-Length'' = None \<and>
        buffer r =
          [Buffer_from (''Status: 200 OK'' @ CRLF @
                        ''Content-Type: application/json; charset=utf-8'' @ CRLF @ CRLF),
           Buffer_from ''{"message":"hi"}'']\<close>
    unfolding FCGIResponse_json_def typed Let_def stringified.case
    using ended by (auto simp: get_prop_def)
  moreover have \<open>case Response_json (Response_new []) (JSON_text ''{"message":"hi"}'') of
      Inl thrown \<Rightarrow> False
    | Inr r \<Rightarrow>
        finished r \<and>
        headers r = [(''Content-Type'', HStr ''application/json; charset=utf-8''),
                     (''Content-Length'', HNum 16)]\<close>
    by (simp add: Response_json_def Response_type_def Response_set_def Response_new_def
          Response_types_def get_prop_def Response_end_def Response_write_def
          Response_writeHeaders_def)
  ultimately show ?thesis by blast
qed

subsection \<open>Query strings\<close>

text \<open>
  Claim C8, at a query string where the decoding fails. In \<^verbatim>\<open>a=1&a[]=2\<close> the key \<^verbatim>\<open>a[]\<close>
  is stripped to \<^verbatim>\<open>a\<close>, which already holds the string \<^verbatim>\<open>1\<close>: \<^verbatim>\<open>!result[arrayKey]\<close> is
  false and \<^verbatim>\<open>result[arrayKey].push(value)\<close> throws a \<^verbatim>\<open>TypeError\<close>, where the claim
  has the value collected in a list under \<^verbatim>\<open>a\<close>. The examples of the claim decode as it
  says: \<^verbatim>\<open>a[]=1&a[]=2&a[]=3\<close> and \<^verbatim>\<open>tag=a&tag=b\<close> give ordered lists, a single value is
  recorded directly, the empty query string gives the empty mapping.
\<close>

theorem parseQueryString_mixed_key:
  "parseQueryString ''a=1&a[]=2'' = Inl TypeError \<and>
   parseQueryString ''a[]=1&a[]=2&a[]=3'' = Inr [(''a'', QArr [''1'', ''2'', ''3''])] \<and>
   parseQueryString ''tag=a&tag=b'' = Inr [(''tag'', QArr [''a'', ''b''])] \<and>
   parseQueryString ''name=world'' = Inr [(''name'', QStr ''world'')] \<and>
   parseQueryString '''' = Inr []"
  by code_simp

subsection \<open>Records on a connection\<close>

text \<open>
  Claim C3 fails on a \<^verbatim>\<open>BEGIN_REQUEST(1)\<close> record whose version byte is 2: the header is
  decoded with version 2, and the record is processed as any \<^verbatim>\<open>BEGIN_REQUEST\<close>: the
  handler returns, with the pending request 1 in the map.
\<close>

theorem version_counterexample:
  "parseHeader (map of_nat [2, 1, 0, 1, 0, 8, 0, 0,   0, 1, 0, 0, 0, 0, 0, 0]) =
     Some \<lparr>h_version = 2, h_type = 1, h_requestId = 1, h_contentLength = 8,
           h_paddingLength = 0, h_reserved = 0\<rparr> \<and>
   (case on_data \<lparr>maxConns = 100, maxReqs = 100\<rparr>
           ([], \<lparr>requests = Map.empty, conn_socket = [], emitted = []\<rparr>)
           (map of_nat [2, 1, 0, 1, 0, 8, 0, 0,   0, 1, 0, 0, 0, 0, 0, 0]) of
      Inl thrown \<Rightarrow> False
    | Inr (rest, st) \<Rightarrow>
        rest = [] \<and> requests st 1 = Some (FCGIRequest_new 1 1 False))"
  by code_simp

lemma processRecord_version:
  "processRecord opts st (header\<lparr>h_version := x\<rparr>) content = processRecord opts st header content"
  by (simp add: processRecord_def Let_def)

lemma parseHeader_Cons:
  "parseHeader (x # rest) = map_option (\<lambda>header. header\<lparr>h_version := unat x\<rparr>) (parseHeader (y # rest))"
  by (simp add: parseHeader_def nth_Cons')

lemma connection_loop_step:
  assumes "parseHeader buf = Some header"
    and "FCGI_HEADER_LEN + h_contentLength header + h_paddingLength header \<le> length buf"
    and "content = take (h_contentLength header) (drop FCGI_HEADER_LEN buf)"
    and "buf' = drop (FCGI_HEADER_LEN + h_contentLength header + h_paddingLength header) buf"
  shows "connection_loop opts buf st =
           (case processRecord opts st header content of
              Inl (e, st') \<Rightarrow> Inl (e, buf', st')
            | Inr st' \<Rightarrow> connection_loop opts buf' st')"
proof -
  have "FCGI_HEADER_LEN \<le> length buf" using assms(2) by simp
  then show ?thesis
    unfolding assms(3,4)
    using assms(1,2) by (subst connection_loop.simps) (simp add: Let_def)
qed

lemma connection_loop_record:
  assumes "parseHeader buf = Some header"
    and "FCGI_HEADER_LEN + h_contentLength header + h_paddingLength header \<le> length buf"
  shows "connection_loop opts buf st =
           (case processRecord opts st header
                   (take (h_contentLength header) (drop FCGI_HEADER_LEN buf)) of
              Inl (e, st') \<Rightarrow>
                Inl (e, drop (FCGI_HEADER_LEN + h_contentLength header + h_paddingLength header) buf,
                     st')
            | Inr st' \<Rightarrow>
                connection_loop opts
                  (drop (FCGI_HEADER_LEN + h_contentLength header + h_paddingLength header) buf)
                  st')"
  by (rule connection_loop_step [OF assms refl refl])

lemma connection_loop_incomplete:
  assumes "parseHeader buf = Some header"
    and "length buf < FCGI_HEADER_LEN + h_contentLength header + h_paddingLength header"
  shows "connection_loop opts buf st = Inr (buf, st)"
  using assms by (subst connection_loop.simps) (simp add: Let_def)

lemma parseHeader_Some:
  assumes "FCGI_HEADER_LEN \<le> length (x # rest)"
  shows "\<exists>header. parseHeader (x # rest) = Some header \<and> h_version header = unat x"
  using assms by (simp add: parseHeader_def)

text \<open>
  Claim C3 as amended. \<^verbatim>\<open>parseHeader\<close> returns a header for every buffer of at least
  \<^verbatim>\<open>FCGI_HEADER_LEN\<close> bytes, whatever the version byte: it decodes the byte and checks
  nothing, and the header is the one for version 1 but for the field \<^verbatim>\<open>version\<close>. On such a
  buffer the handler of \<^verbatim>\<open>'data'\<close> waits when the record is not whole, and otherwise
  processes the record by \<^verbatim>\<open>_processRecord\<close> and goes on with the bytes after it: the
  outcome is the one for the same bytes with version 1 (when the record is not whole, the
  bytes kept are the bytes received). The only exceptions are those of
  \<^verbatim>\<open>_processRecord\<close>; the connection is not dropped.
\<close>

theorem version_byte_ignored:
  assumes "FCGI_HEADER_LEN \<le> length (x # rest)"
  shows "case parseHeader (x # rest) of
           None \<Rightarrow> False
         | Some header \<Rightarrow>
             h_version header = unat x \<and>
             parseHeader (of_nat FCGI_VERSION_1 # rest) =
               Some (header\<lparr>h_version := FCGI_VERSION_1\<rparr>) \<and>
             on_data opts ([], st) (x # rest) =
               (if length (x # rest) <
                     FCGI_HEADER_LEN + h_contentLength header + h_paddingLength header
                then Inr (x # rest, st)
                else
                  (case processRecord opts st header
                          (take (h_contentLength header) (drop FCGI_HEADER_LEN (x # rest))) of
                     Inl (e, st') \<Rightarrow>
                       Inl (e, drop (FCGI_HEADER_LEN + h_contentLength header +
                                       h_paddingLength header) (x # rest), st')
                   | Inr st' \<Rightarrow>
                       connection_loop opts
                         (drop (FCGI_HEADER_LEN + h_contentLength header +
                                  h_paddingLength header) (x # rest))
                         st')) \<and>
             on_data opts ([], st) (of_nat FCGI_VERSION_1 # rest) =
               (if length (x # rest) <
                     FCGI_HEADER_LEN + h_contentLength header + h_paddingLength header
                then Inr (of_nat FCGI_VERSION_1 # rest, st)
                else on_data opts ([], st) (x # rest))"
proof -
  let ?one = "of_nat FCGI_VERSION_1 :: byte"
  from parseHeader_Some [OF assms] obtain header where
    h: "parseHeader (x # rest) = Some header" and v: "h_version header = unat x"
    by blast
  let ?h1 = "header\<lparr>h_version := unat ?one\<rparr>"
  let ?total = "FCGI_HEADER_LEN + h_contentLength header + h_paddingLength header"
  have one: "unat ?one = FCGI_VERSION_1"
    by (simp add: FCGI_VERSION_1_def)
  have h1: "parseHeader (?one # rest) = Some ?h1"
    using h parseHeader_Cons [of ?one rest x] by simp
  have p1: "parseHeader (?one # rest) = Some (header\<lparr>h_version := FCGI_VERSION_1\<rparr>)"
    using h1 unfolding one .
  have a: "on_data opts ([], st) (x # rest) =
               (if length (x # rest) < ?total
                then Inr (x # rest, st)
                else
                  (case processRecord opts st header
                          (take (h_contentLength header) (drop FCGI_HEADER_LEN (x # rest))) of
                     Inl (e, st') \<Rightarrow> Inl (e, drop ?total (x # rest), st')
                   | Inr st' \<Rightarrow> connection_loop opts (drop ?total (x # rest)) st'))"
  proof (cases "length (x # rest) < ?total")
    case True
    then show ?thesis
      using connection_loop_incomplete [OF h True, of opts st] by (simp add: on_data_def)
  next
    case False
    then have len: "?total \<le> length (x # rest)" by simp
    show ?thesis
      using connection_loop_record [OF h len, of opts st] False by (simp add: on_data_def)
  qed
  have b: "on_data opts ([], st) (?one # rest) =
               (if length (x # rest) < ?total
                then Inr (?one # rest, st)
                else on_data opts ([], st) (x # rest))"
  proof (cases "length (x # rest) < ?total")
    case True
    then have short: "length (?one # rest) <
        FCGI_HEADER_LEN + h_contentLength ?h1 + h_paddingLength ?h1"
      by simp
    show ?thesis
      using connection_loop_incomplete [OF h1 short, of opts st] True
      by (simp add: on_data_def)
  next
    case False
    then have len: "?total \<le> length (x # rest)" by simp
    then have len1: "FCGI_HEADER_LEN + h_contentLength ?h1 + h_paddingLength ?h1 \<le>
        length (?one # rest)"
      by simp
    have "connection_loop opts (?one # rest) st = connection_loop opts (x # rest) st"
      unfolding connection_loop_record [OF h len, of opts st]
      by (rule trans [OF connection_loop_step [OF h1 len1, of _ _ opts st]])
         (simp_all add: processRecord_version FCGI_HEADER_LEN_def drop_Cons')
    then show ?thesis
      using False by (simp add: on_data_def)
  qed
  show ?thesis
    unfolding h option.case using v p1 a b by (intro conjI)
qed

text \<open>
C3 as amended, on the record of the counterexample.
\<close>

theorem version_byte_ignored_witness:
  "FCGI_HEADER_LEN \<le>
     length (map of_nat [2, 1, 0, 1, 0, 8, 0, 0,   0, 1, 0, 0, 0, 0, 0, 0] :: byte list) \<and>
   parseHeader (map of_nat [2, 1, 0, 1, 0, 8, 0, 0,   0, 1, 0, 0, 0, 0, 0, 0]) =
     Some \<lparr>h_version = 2, h_type = 1, h_requestId = 1, h_contentLength = 8,
           h_paddingLength = 0, h_reserved = 0\<rparr> \<and>
   on_data \<lparr>maxConns = 100, maxReqs = 100\<rparr>
           ([], \<lparr>requests = Map.empty, conn_socket = [], emitted = []\<rparr>)
           (map of_nat [2, 1, 0, 1, 0, 8, 0, 0,   0, 1, 0, 0, 0, 0, 0, 0]) =
   on_data \<lparr>maxConns = 100, maxReqs = 100\<rparr>
           ([], \<lparr>requests = Map.empty, conn_socket = [], emitted = []\<rparr>)
           (map of_nat [1, 1, 0, 1, 0, 8, 0, 0,   0, 1, 0, 0, 0, 0, 0, 0])"
proof -
  let ?h = "\<lparr>h_version = 2, h_type = 1, h_requestId = 1, h_contentLength = 8,
           h_paddingLength = 0, h_reserved = 0\<rparr>"
  let ?rest = "map of_nat [1, 0, 1, 0, 8, 0, 0,   0, 1, 0, 0, 0, 0, 0, 0] :: byte list"
  let ?opts = "\<lparr>maxConns = 100, maxReqs = 100\<rparr>"
  let ?st = "\<lparr>requests = Map.empty, conn_socket = [], emitted = []\<rparr>"
  have l: "FCGI_HEADER_LEN \<le> length (2 # ?rest)"
    by (simp add: FCGI_HEADER_LEN_def)
  have p: "parseHeader (2 # ?rest) = Some ?h"
    by (simp add: parseHeader_def FCGI_HEADER_LEN_def)
  have whole: "\<not> length (2 # ?rest) <
      FCGI_HEADER_LEN + h_contentLength ?h + h_paddingLength ?h"
    by (simp add: FCGI_HEADER_LEN_def)
  from version_byte_ignored [where x = 2 and rest = ?rest and opts = ?opts and st = ?st, OF l]
  have "on_data ?opts ([], ?st) (of_nat FCGI_VERSION_1 # ?rest) =
          (if length (2 # ?rest) < FCGI_HEADER_LEN + h_contentLength ?h + h_paddingLength ?h
           then Inr (of_nat FCGI_VERSION_1 # ?rest, ?st)
           else on_data ?opts ([], ?st) (2 # ?rest))"
    unfolding p option.case by blast
  with whole have "on_data ?opts ([], ?st) (of_nat FCGI_VERSION_1 # ?rest) =
      on_data ?opts ([], ?st) (2 # ?rest)"
    by (simp only: if_False)
  then show ?thesis
    using p l by (simp add: FCGI_VERSION_1_def)
qed

text \<open>
  Claim C4 fails on the scenario of the specification: \<^verbatim>\<open>BEGIN_REQUEST(1)\<close>, a
  \<^verbatim>\<open>PARAMS(1)\<close> record with the pair \<^verbatim>\<open>A = B\<close> (4 bytes of content, 4 of padding), then
  \<^verbatim>\<open>ABORT_REQUEST(1)\<close>. The entry is
  removed and no event is emitted, but nothing was written to the socket: no
  \<^verbatim>\<open>END_REQUEST\<close> record.
\<close>

theorem abort_counterexample:
  "(case connection_loop \<lparr>maxConns = 100, maxReqs = 100\<rparr>
           (map of_nat [1, 1, 0, 1, 0, 8, 0, 0,   0, 1, 0, 0, 0, 0, 0, 0,
                        1, 4, 0, 1, 0, 4, 4, 0,   1, 1, 65, 66, 0, 0, 0, 0,
                        1, 2, 0, 1, 0, 0, 0, 0])
           \<lparr>requests = Map.empty, conn_socket = [], emitted = []\<rparr> of
      Inl thrown \<Rightarrow> False
    | Inr (rest, st) \<Rightarrow>
        rest = [] \<and> requests st 1 = None \<and> conn_socket st = [] \<and> emitted st = [])"
  by code_simp

lemma tryHandleRequest_not_ready:
  assumes "requests st rid = None \<or> (\<exists>req. requests st rid = Some req \<and> \<not> isReady req)"
  shows "tryHandleRequest st rid = Inr st"
  using assms by (auto simp: tryHandleRequest_def)

lemma processRecord_no_entry:
  assumes "requests st (h_requestId header) = None"
    and "h_type header = FCGI_PARAMS \<or> h_type header = FCGI_STDIN \<or>
         h_type header = FCGI_ABORT_REQUEST"
  shows "processRecord opts st header content = Inr st"
proof -
  have "(requests st)(h_requestId header := None) = requests st"
    using assms(1) by (simp add: fun_upd_idem)
  then show ?thesis
    using assms
    by (auto simp: processRecord_def Let_def tryHandleRequest_not_ready FCGI_PARAMS_def
          FCGI_STDIN_def FCGI_ABORT_REQUEST_def FCGI_BEGIN_REQUEST_def)
qed

text \<open>
  Claim C4 as amended. \<^verbatim>\<open>_processRecord\<close> on an \<^verbatim>\<open>ABORT_REQUEST\<close> record returns with the
  entry of that request id removed from the map and nothing else changed: no
  \<^verbatim>\<open>'request'\<close> event is emitted, and nothing is written to the socket. While the map
  has no entry for a request id, a \<^verbatim>\<open>PARAMS\<close>, \<^verbatim>\<open>STDIN\<close> or \<^verbatim>\<open>ABORT_REQUEST\<close> record
  for it changes nothing either, so no event follows for the aborted request.
\<close>

theorem abort_removes_silently:
  "(h_type header = FCGI_ABORT_REQUEST \<longrightarrow>
      processRecord opts st header content =
        Inr (st\<lparr>requests := (requests st)(h_requestId header := None)\<rparr>)) \<and>
   (requests st (h_requestId header) = None \<and>
    (h_type header = FCGI_PARAMS \<or> h_type header = FCGI_STDIN \<or>
     h_type header = FCGI_ABORT_REQUEST) \<longrightarrow>
      processRecord opts st header content = Inr st)"
proof -
  have "h_type header = FCGI_ABORT_REQUEST \<longrightarrow>
      processRecord opts st header content =
        Inr (st\<lparr>requests := (requests st)(h_requestId header := None)\<rparr>)"
    by (simp add: processRecord_def Let_def FCGI_ABORT_REQUEST_def FCGI_BEGIN_REQUEST_def
          FCGI_PARAMS_def FCGI_STDIN_def)
  then show ?thesis
    using processRecord_no_entry by blast
qed

text \<open>
C4 as amended, on a connection that holds the pending request 1, and on the connection
  without it for a later empty \<^verbatim>\<open>STDIN(1)\<close>.
\<close>

theorem abort_removes_silently_witness:
  "h_type \<lparr>h_version = 1, h_type = 2, h_requestId = 1, h_contentLength = 0,
           h_paddingLength = 0, h_reserved = 0\<rparr> = FCGI_ABORT_REQUEST \<and>
   processRecord \<lparr>maxConns = 100, maxReqs = 100\<rparr>
     \<lparr>requests = [1 \<mapsto> FCGIRequest_new 1 1 False], conn_socket = [], emitted = []\<rparr>
     \<lparr>h_version = 1, h_type = 2, h_requestId = 1, h_contentLength = 0,
      h_paddingLength = 0, h_reserved = 0\<rparr> [] =
   Inr \<lparr>requests = Map.empty, conn_socket = [], emitted = []\<rparr> \<and>
   h_type \<lparr>h_version = 1, h_type = 5, h_requestId = 1, h_contentLength = 0,
           h_paddingLength = 0, h_reserved = 0\<rparr> = FCGI_STDIN \<and>
   processRecord \<lparr>maxConns = 100, maxReqs = 100\<rparr>
     \<lparr>requests = Map.empty, conn_socket = [], emitted = []\<rparr>
     \<lparr>h_version = 1, h_type = 5, h_requestId = 1, h_contentLength = 0,
      h_paddingLength = 0, h_reserved = 0\<rparr> [] =
   Inr \<lparr>requests = Map.empty, conn_socket = [], emitted = []\<rparr>"
proof -
  let ?abort = "\<lparr>h_version = 1, h_type = 2, h_requestId = 1, h_contentLength = 0,
           h_paddingLength = 0, h_reserved = 0\<rparr>"
  let ?stdin = "\<lparr>h_version = 1, h_type = 5, h_requestId = 1, h_contentLength = 0,
           h_paddingLength = 0, h_reserved = 0\<rparr>"
  let ?opts = "\<lparr>maxConns = 100, maxReqs = 100\<rparr>"
  let ?st = "\<lparr>requests = [1 \<mapsto> FCGIRequest_new 1 1 False], conn_socket = [], emitted = []\<rparr>"
  let ?st' = "\<lparr>requests = Map.empty, conn_socket = [], emitted = []\<rparr>"
  have ty: "h_type ?abort = FCGI_ABORT_REQUEST" "h_type ?stdin = FCGI_STDIN"
    by (simp_all add: FCGI_ABORT_REQUEST_def FCGI_STDIN_def)
  have none: "requests ?st' (h_requestId ?stdin) = None"
    by simp
  have "processRecord ?opts ?st ?abort [] =
          Inr (?st\<lparr>requests := (requests ?st)(h_requestId ?abort := None)\<rparr>)"
    using abort_removes_silently [where header = ?abort and opts = ?opts and st = ?st
        and content = "[]"] ty(1)
    by blast
  then have a: "processRecord ?opts ?st ?abort [] = Inr ?st'"
    by simp
  have b: "processRecord ?opts ?st' ?stdin [] = Inr ?st'"
    using abort_removes_silently [where header = ?stdin and opts = ?opts and st = ?st'
        and content = "[]"] ty(2) none
    by blast
  show ?thesis
    using ty a b by blast
qed

text \<open>
  Claim C5 fails on \<^verbatim>\<open>BEGIN_REQUEST(1)\<close> with role 2 (authorizer), the empty \<^verbatim>\<open>PARAMS(1)\<close>
  and the empty \<^verbatim>\<open>STDIN(1)\<close>: nothing is written to the socket, and the request is handed
  to the application (one \<^verbatim>\<open>'request'\<close> event, for request 1).
\<close>

theorem role_counterexample:
  "(case connection_loop \<lparr>maxConns = 100, maxReqs = 100\<rparr>
           (map of_nat [1, 1, 0, 1, 0, 8, 0, 0,   0, 2, 0, 0, 0, 0, 0, 0,
                        1, 4, 0, 1, 0, 0, 0, 0,
                        1, 5, 0, 1, 0, 0, 0, 0])
           \<lparr>requests = Map.empty, conn_socket = [], emitted = []\<rparr> of
      Inl thrown \<Rightarrow> False
    | Inr (rest, st) \<Rightarrow>
        rest = [] \<and> requests st 1 = None \<and> conn_socket st = [] \<and>
        map snd (emitted st) = [1])"
  by code_simp

lemma tryHandleRequest_ready:
  assumes "requests st rid = Some req" and "isReady req"
  shows "case tryHandleRequest st rid of
           Inl (e, st') \<Rightarrow> st' = st\<lparr>requests := (requests st)(rid := None)\<rparr>
         | Inr st' \<Rightarrow>
             \<exists>request. st' = st\<lparr>requests := (requests st)(rid := None),
                                emitted := emitted st @ [(request, rid)]\<rparr>"
  using assms by (auto simp: tryHandleRequest_def Let_def split: sum.splits)

lemma tryHandleRequest_role:
  "tryHandleRequest (st\<lparr>requests := (requests st)(rid \<mapsto> req\<lparr>req_role := role\<rparr>)\<rparr>) rid =
     (if isReady req then tryHandleRequest (st\<lparr>requests := (requests st)(rid \<mapsto> req)\<rparr>) rid
      else Inr (st\<lparr>requests := (requests st)(rid \<mapsto> req\<lparr>req_role := role\<rparr>)\<rparr>))"
  by (simp add: tryHandleRequest_def isReady_def getStdinBuffer_def Let_def
        split: sum.splits)

lemma as_responder_fields:
  "conn_socket (as_responder st) = conn_socket st"
  "emitted (as_responder st) = emitted st"
  "requests (as_responder st) rid =
     map_option (\<lambda>req. req\<lparr>req_role := FCGI_RESPONDER\<rparr>) (requests st rid)"
  by (simp_all add: as_responder_def)

lemma as_responder_update:
  "as_responder (st\<lparr>requests := (requests st)(rid \<mapsto> req)\<rparr>) =
     (as_responder st)\<lparr>requests :=
        (requests (as_responder st))(rid \<mapsto> req\<lparr>req_role := FCGI_RESPONDER\<rparr>)\<rparr>"
  by (auto simp: as_responder_def fun_eq_iff)

lemma as_responder_delete:
  "as_responder (st\<lparr>requests := (requests st)(rid := None)\<rparr>) =
     (as_responder st)\<lparr>requests := (requests (as_responder st))(rid := None)\<rparr>"
  by (auto simp: as_responder_def fun_eq_iff)

lemma as_responder_emitted:
  "as_responder (st\<lparr>emitted := evs\<rparr>) = (as_responder st)\<lparr>emitted := evs\<rparr>"
  by (simp add: as_responder_def)

lemma as_responder_socket:
  "as_responder (st\<lparr>conn_socket := out\<rparr>) = (as_responder st)\<lparr>conn_socket := out\<rparr>"
  by (simp add: as_responder_def)

lemma tryHandleRequest_as_responder:
  "tryHandleRequest (as_responder st) rid = as_responder_result (tryHandleRequest st rid)"
proof (cases "requests st rid")
  case None
  then show ?thesis
    by (simp add: tryHandleRequest_def as_responder_result_def as_responder_fields)
next
  case (Some req)
  show ?thesis
  proof (cases "isReady req")
    case False
    with Some show ?thesis
      by (simp add: tryHandleRequest_def as_responder_result_def as_responder_fields
            isReady_def)
  next
    case True
    with Some show ?thesis
      by (simp add: tryHandleRequest_def as_responder_result_def as_responder_fields
            isReady_def getStdinBuffer_def Let_def as_responder_delete
            as_responder_emitted split: sum.splits)
  qed
qed

lemma addParams_role:
  "addParams (req\<lparr>req_role := role\<rparr>) content =
     (case addParams req content of
        Inl e \<Rightarrow> Inl e
      | Inr req' \<Rightarrow> Inr (req'\<lparr>req_role := role\<rparr>))"
  by (simp add: addParams_def split: sum.splits)

lemma addStdin_role:
  "addStdin (req\<lparr>req_role := role\<rparr>) content = (addStdin req content)\<lparr>req_role := role\<rparr>"
  by (simp add: addStdin_def)

lemma FCGIRequest_new_role:
  "(FCGIRequest_new rid role keepConn)\<lparr>req_role := role'\<rparr> = FCGIRequest_new rid role' keepConn"
  by (simp add: FCGIRequest_new_def)

lemma processRecord_as_responder:
  "processRecord opts (as_responder st) header (responder_body header content) =
     as_responder_result (processRecord opts st header content)"
proof -
  let ?rid = "h_requestId header"
  consider (bgn) "h_type header = FCGI_BEGIN_REQUEST"
    | (params) "h_type header = FCGI_PARAMS"
    | (stdin) "h_type header = FCGI_STDIN"
    | (other) "h_type header \<noteq> FCGI_BEGIN_REQUEST" "h_type header \<noteq> FCGI_PARAMS"
        "h_type header \<noteq> FCGI_STDIN"
    by blast
  then show ?thesis
  proof cases
    case bgn
    consider (short) "length content < 2" | (two) "length content = 2" | (long) "3 \<le> length content"
      by arith
    then show ?thesis
    proof cases
      case short
      with bgn show ?thesis
        by (simp add: processRecord_def responder_body_def readUInt16BE_def
              as_responder_result_def)
    next
      case two
      with bgn show ?thesis
        by (simp add: processRecord_def responder_body_def readUInt16BE_def readUInt8_def
              as_responder_result_def)
    next
      case long
      with bgn show ?thesis
        by (simp add: processRecord_def responder_body_def readUInt16BE_def readUInt8_def
              as_responder_result_def as_responder_update FCGIRequest_new_role
              FCGI_RESPONDER_def Let_def)
    qed
  next
    case params
    then have nb: "h_type header \<noteq> FCGI_BEGIN_REQUEST"
      by (simp add: FCGI_PARAMS_def FCGI_BEGIN_REQUEST_def)
    show ?thesis
    proof (cases "requests st ?rid")
      case None
      with params nb show ?thesis
        by (simp add: processRecord_def responder_body_def Let_def as_responder_fields
              tryHandleRequest_as_responder)
    next
      case (Some req)
      show ?thesis
      proof (cases "addParams req content")
        case (Inl e)
        with Some params nb show ?thesis
          by (simp add: processRecord_def responder_body_def Let_def as_responder_fields
                addParams_role as_responder_result_def)
      next
        case (Inr req')
        with Some params nb show ?thesis
          by (simp add: processRecord_def responder_body_def Let_def as_responder_fields
                addParams_role tryHandleRequest_as_responder [symmetric]
                as_responder_update)
      qed
    qed
  next
    case stdin
    then have nb: "h_type header \<noteq> FCGI_BEGIN_REQUEST" "h_type header \<noteq> FCGI_PARAMS"
      by (simp_all add: FCGI_STDIN_def FCGI_PARAMS_def FCGI_BEGIN_REQUEST_def)
    show ?thesis
    proof (cases "requests st ?rid")
      case None
      with stdin nb show ?thesis
        by (simp add: processRecord_def responder_body_def Let_def as_responder_fields
              tryHandleRequest_as_responder)
    next
      case (Some req)
      with stdin nb show ?thesis
        by (simp add: processRecord_def responder_body_def Let_def as_responder_fields
              addStdin_role tryHandleRequest_as_responder [symmetric]
              as_responder_update)
    qed
  next
    case other
    then show ?thesis
      by (simp add: processRecord_def responder_body_def Let_def as_responder_result_def
            as_responder_delete as_responder_socket as_responder_fields split: sum.splits)
  qed
qed

lemma responder_record_pair:
  "responder_record (header, content) = (header, responder_body header content)"
  by (simp add: responder_record_def)

lemma as_responder_result_simps:
  "as_responder_result (Inl (e, st)) = Inl (e, as_responder st)"
  "as_responder_result (Inr st) = Inr (as_responder st)"
  by (simp_all add: as_responder_result_def)

lemma process_all_as_responder:
  "process_all opts (as_responder st) (map responder_record records) =
     as_responder_result (process_all opts st records)"
proof (induction records arbitrary: st)
  case Nil
  show ?case by (simp add: as_responder_result_simps)
next
  case (Cons item rest)
  obtain header content where item: "item = (header, content)" by (cases item)
  show ?case
  proof (cases "processRecord opts st header content")
    case (Inl thrown)
    obtain e st1 where thrown: "thrown = (e, st1)" by (cases thrown)
    show ?thesis
      unfolding item
      using Inl thrown
      by (simp add: responder_record_pair processRecord_as_responder
            as_responder_result_simps)
  next
    case (Inr st1)
    then show ?thesis
      unfolding item
      by (simp add: responder_record_pair processRecord_as_responder
            as_responder_result_simps Cons.IH)
  qed
qed

text \<open>
  Claim C5 as amended. \<^verbatim>\<open>_processRecord\<close> on a \<^verbatim>\<open>BEGIN_REQUEST\<close> record with a body of at
  least 3 bytes stores a new pending request with the role and the keep-connection flag
  read from the body, whatever the role, and writes nothing. The role is not looked at
  afterwards: a new request is not ready, \<^verbatim>\<open>isReady\<close> does not depend on the role, and
  \<^verbatim>\<open>_tryHandleRequest\<close> on a ready request does the same for every role. Every record, of
  any type, is processed as it is when all the roles, the pending ones and the one of the
  record, are the role of a responder: the same exception or return, the same writes to the
  socket, the same \<^verbatim>\<open>'request'\<close> events, and the same pending requests but for the field
  \<^verbatim>\<open>role\<close>; and so is every stream of records.
\<close>

theorem role_not_consulted:
  "(h_type header = FCGI_BEGIN_REQUEST \<and> 3 \<le> length content \<longrightarrow>
      processRecord opts st header content =
        Inr (st\<lparr>requests := (requests st)
               (h_requestId header \<mapsto>
                  FCGIRequest_new (h_requestId header)
                    (unat (content ! 0) * 256 + unat (content ! 1))
                    (unat (content ! 2) mod 2 \<noteq> 0))\<rparr>)) \<and>
   isReady (FCGIRequest_new rid role keepConn) = False \<and>
   isReady (req\<lparr>req_role := role\<rparr>) = isReady req \<and>
   tryHandleRequest (st\<lparr>requests := (requests st)(rid \<mapsto> req\<lparr>req_role := role\<rparr>)\<rparr>) rid =
     (if isReady req then tryHandleRequest (st\<lparr>requests := (requests st)(rid \<mapsto> req)\<rparr>) rid
      else Inr (st\<lparr>requests := (requests st)(rid \<mapsto> req\<lparr>req_role := role\<rparr>)\<rparr>)) \<and>
   conn_socket (as_responder st) = conn_socket st \<and>
   emitted (as_responder st) = emitted st \<and>
   requests (as_responder st) rid =
     map_option (\<lambda>req. req\<lparr>req_role := FCGI_RESPONDER\<rparr>) (requests st rid) \<and>
   processRecord opts (as_responder st) any_header (responder_body any_header any_content) =
     as_responder_result (processRecord opts st any_header any_content) \<and>
   process_all opts (as_responder st) (map responder_record records) =
     as_responder_result (process_all opts st records)"
proof -
  have "h_type header = FCGI_BEGIN_REQUEST \<and> 3 \<le> length content \<longrightarrow>
      processRecord opts st header content =
        Inr (st\<lparr>requests := (requests st)
               (h_requestId header \<mapsto>
                  FCGIRequest_new (h_requestId header)
                    (unat (content ! 0) * 256 + unat (content ! 1))
                    (unat (content ! 2) mod 2 \<noteq> 0))\<rparr>)"
    by (simp add: processRecord_def Let_def readUInt16BE_def readUInt8_def)
  moreover have "isReady (FCGIRequest_new rid role keepConn) = False"
    by (simp add: isReady_def FCGIRequest_new_def)
  moreover have "isReady (req\<lparr>req_role := role\<rparr>) = isReady req"
    by (simp add: isReady_def)
  ultimately show ?thesis
    by (simp only: tryHandleRequest_role as_responder_fields processRecord_as_responder
          process_all_as_responder simp_thms)
qed

text \<open>
C5 as amended, on a \<^verbatim>\<open>BEGIN_REQUEST(1)\<close> record with role 2.
\<close>

theorem role_not_consulted_witness:
  "h_type \<lparr>h_version = 1, h_type = 1, h_requestId = 1, h_contentLength = 8,
           h_paddingLength = 0, h_reserved = 0\<rparr> = FCGI_BEGIN_REQUEST \<and>
   3 \<le> length (map of_nat [0, 2, 0, 0, 0, 0, 0, 0] :: byte list) \<and>
   (case processRecord \<lparr>maxConns = 100, maxReqs = 100\<rparr>
           \<lparr>requests = Map.empty, conn_socket = [], emitted = []\<rparr>
           \<lparr>h_version = 1, h_type = 1, h_requestId = 1, h_contentLength = 8,
            h_paddingLength = 0, h_reserved = 0\<rparr>
           (map of_nat [0, 2, 0, 0, 0, 0, 0, 0]) of
      Inl thrown \<Rightarrow> False
    | Inr st \<Rightarrow>
        requests st 1 = Some (FCGIRequest_new 1 2 False) \<and> conn_socket st = [] \<and>
        emitted st = [])"
proof -
  let ?header = "\<lparr>h_version = 1, h_type = 1, h_requestId = 1, h_contentLength = 8,
           h_paddingLength = 0, h_reserved = 0\<rparr>"
  let ?content = "map of_nat [0, 2, 0, 0, 0, 0, 0, 0] :: byte list"
  let ?opts = "\<lparr>maxConns = 100, maxReqs = 100\<rparr>"
  let ?st = "\<lparr>requests = Map.empty, conn_socket = [], emitted = []\<rparr>"
  have ty: "h_type ?header = FCGI_BEGIN_REQUEST"
    by (simp add: FCGI_BEGIN_REQUEST_def)
  have len: "3 \<le> length ?content"
    by simp
  have "h_type ?header = FCGI_BEGIN_REQUEST \<and> 3 \<le> length ?content \<longrightarrow>
      processRecord ?opts ?st ?header ?content =
        Inr (?st\<lparr>requests := (requests ?st)
               (h_requestId ?header \<mapsto>
                  FCGIRequest_new (h_requestId ?header)
                    (unat (?content ! 0) * 256 + unat (?content ! 1))
                    (unat (?content ! 2) mod 2 \<noteq> 0))\<rparr>)"
    by (rule role_not_consulted [where header = ?header and content = ?content
        and opts = ?opts and st = ?st, THEN conjunct1])
  with ty len have "processRecord ?opts ?st ?header ?content =
        Inr (?st\<lparr>requests := (requests ?st)
               (h_requestId ?header \<mapsto>
                  FCGIRequest_new (h_requestId ?header)
                    (unat (?content ! 0) * 256 + unat (?content ! 1))
                    (unat (?content ! 2) mod 2 \<noteq> 0))\<rparr>)"
    by blast
  moreover have "h_requestId ?header = 1"
    "unat (?content ! 0) * 256 + unat (?content ! 1) = 2"
    "(unat (?content ! 2) mod 2 \<noteq> 0) = False"
    by simp_all
  ultimately have "processRecord ?opts ?st ?header ?content =
        Inr (?st\<lparr>requests := (requests ?st)(1 \<mapsto> FCGIRequest_new 1 2 False)\<rparr>)"
    by (simp only:)
  then have "case processRecord ?opts ?st ?header ?content of
      Inl thrown \<Rightarrow> False
    | Inr st \<Rightarrow>
        requests st 1 = Some (FCGIRequest_new 1 2 False) \<and> conn_socket st = [] \<and>
        emitted st = []"
    by simp
  with ty len show ?thesis by blast
qed

text \<open>
  What \<^verbatim>\<open>_tryHandleRequest\<close> and \<^verbatim>\<open>_processRecord\<close> do to the map and to the events when
  they return: a request is dispatched by the record that makes it ready, its entry is
  removed then, no entry that is ready stays in the map, and over a stream whose
  \<^verbatim>\<open>BEGIN_REQUEST\<close> records have distinct request ids no request is dispatched twice.
\<close>

lemma tryHandleRequest_shape:
  assumes "tryHandleRequest st rid = Inr st'"
  shows "(st' = st \<and> (\<forall>req. requests st rid = Some req \<longrightarrow> \<not> isReady req)) \<or>
         (\<exists>req. requests st rid = Some req \<and> isReady req \<and>
            requests st' = (requests st)(rid := None) \<and>
            dispatched st' = dispatched st @ [rid])"
  using assms
  by (auto simp: tryHandleRequest_def dispatched_def Let_def
        split: option.splits if_splits sum.splits)

lemma processRecord_shape:
  assumes "processRecord opts st header content = Inr st'"
  shows "(h_type header = FCGI_BEGIN_REQUEST \<and> dispatched st' = dispatched st \<and>
          dom (requests st') = insert (h_requestId header) (dom (requests st))) \<or>
         (h_type header \<noteq> FCGI_BEGIN_REQUEST \<and> dom (requests st') \<subseteq> dom (requests st) \<and>
          (dispatched st' = dispatched st \<or>
           (h_requestId header \<in> dom (requests st) \<and>
            h_requestId header \<notin> dom (requests st') \<and>
            dispatched st' = dispatched st @ [h_requestId header])))"
proof -
  let ?rid = "h_requestId header"
  consider (bgn) "h_type header = FCGI_BEGIN_REQUEST"
    | (params) "h_type header = FCGI_PARAMS"
    | (stdin) "h_type header = FCGI_STDIN"
    | (other) "h_type header \<noteq> FCGI_BEGIN_REQUEST" "h_type header \<noteq> FCGI_PARAMS"
        "h_type header \<noteq> FCGI_STDIN"
    by blast
  then show ?thesis
  proof cases
    case bgn
    with assms show ?thesis
      by (auto simp: processRecord_def Let_def dispatched_def split: sum.splits)
  next
    case params
    then have nb: "h_type header \<noteq> FCGI_BEGIN_REQUEST"
      by (simp add: FCGI_PARAMS_def FCGI_BEGIN_REQUEST_def)
    show ?thesis
    proof (cases "requests st ?rid")
      case None
      with assms params nb have "tryHandleRequest st ?rid = Inr st'"
        by (simp add: processRecord_def Let_def)
      with None nb show ?thesis
        using tryHandleRequest_shape [of st ?rid st'] by auto
    next
      case (Some req)
      with assms params nb obtain req' where
        t: "tryHandleRequest (st\<lparr>requests := (requests st)(?rid \<mapsto> req')\<rparr>) ?rid = Inr st'"
        by (auto simp: processRecord_def Let_def split: sum.splits)
      from tryHandleRequest_shape [OF t] Some nb show ?thesis
        by (auto simp: dispatched_def split: if_splits)
    qed
  next
    case stdin
    then have nb: "h_type header \<noteq> FCGI_BEGIN_REQUEST" "h_type header \<noteq> FCGI_PARAMS"
      by (simp_all add: FCGI_STDIN_def FCGI_PARAMS_def FCGI_BEGIN_REQUEST_def)
    show ?thesis
    proof (cases "requests st ?rid")
      case None
      with assms stdin nb have "tryHandleRequest st ?rid = Inr st'"
        by (simp add: processRecord_def Let_def)
      with None nb show ?thesis
        using tryHandleRequest_shape [of st ?rid st'] by auto
    next
      case (Some req)
      with assms stdin nb have
        t: "tryHandleRequest (st\<lparr>requests := (requests st)(?rid \<mapsto> addStdin req content)\<rparr>) ?rid
              = Inr st'"
        by (auto simp: processRecord_def Let_def split: sum.splits)
      from tryHandleRequest_shape [OF t] Some nb show ?thesis
        by (auto simp: dispatched_def split: if_splits)
    qed
  next
    case other
    with assms show ?thesis
      by (auto simp: processRecord_def Let_def dispatched_def split: sum.splits if_splits)
  qed
qed

lemma begin_ids_Cons:
  "begin_ids ((header, content) # rest) =
     (if h_type header = FCGI_BEGIN_REQUEST then h_requestId header # begin_ids rest
      else begin_ids rest)"
  by (simp add: begin_ids_def)

lemma process_all_dispatches_once:
  assumes "process_all opts st records = Inr st'"
    and "distinct (dispatched st)"
    and "dom (requests st) \<inter> set (dispatched st) = {}"
    and "distinct (begin_ids records)"
    and "set (begin_ids records) \<inter> (dom (requests st) \<union> set (dispatched st)) = {}"
  shows "distinct (dispatched st')"
  using assms
proof (induction records arbitrary: st)
  case Nil
  then show ?case by simp
next
  case (Cons item rest)
  obtain header content where rec: "item = (header, content)" by (cases item)
  from Cons.prems(1) rec obtain st1 where
    one: "processRecord opts st header content = Inr st1" and
    more: "process_all opts st1 rest = Inr st'"
    by (auto split: sum.splits)
  let ?rid = "h_requestId header"
  from processRecord_shape [OF one]
  consider (bgn) "h_type header = FCGI_BEGIN_REQUEST" "dispatched st1 = dispatched st"
      "dom (requests st1) = insert ?rid (dom (requests st))"
    | (same) "h_type header \<noteq> FCGI_BEGIN_REQUEST" "dom (requests st1) \<subseteq> dom (requests st)"
      "dispatched st1 = dispatched st"
    | (emit) "h_type header \<noteq> FCGI_BEGIN_REQUEST" "dom (requests st1) \<subseteq> dom (requests st)"
      "?rid \<in> dom (requests st)" "?rid \<notin> dom (requests st1)"
      "dispatched st1 = dispatched st @ [?rid]"
    by blast
  then show ?case
  proof cases
    case bgn
    from Cons.prems(4,5) bgn(1) rec have
      fresh: "?rid \<notin> set (begin_ids rest)" "distinct (begin_ids rest)"
        "?rid \<notin> set (dispatched st)"
        "set (begin_ids rest) \<inter> (dom (requests st) \<union> set (dispatched st)) = {}"
      by (auto simp: begin_ids_Cons)
    show ?thesis
    proof (rule Cons.IH [OF more])
      show "distinct (dispatched st1)" using bgn Cons.prems(2) by simp
      show "dom (requests st1) \<inter> set (dispatched st1) = {}"
        using bgn Cons.prems(3) fresh by auto
      show "distinct (begin_ids rest)" by (rule fresh(2))
      show "set (begin_ids rest) \<inter> (dom (requests st1) \<union> set (dispatched st1)) = {}"
        using bgn fresh by auto
    qed
  next
    case same
    from Cons.prems(4,5) same(1) rec have
      ids: "distinct (begin_ids rest)"
        "set (begin_ids rest) \<inter> (dom (requests st) \<union> set (dispatched st)) = {}"
      by (auto simp: begin_ids_Cons)
    show ?thesis
    proof (rule Cons.IH [OF more])
      show "distinct (dispatched st1)" using same Cons.prems(2) by simp
      show "dom (requests st1) \<inter> set (dispatched st1) = {}"
        using same Cons.prems(3) by auto
      show "distinct (begin_ids rest)" by (rule ids(1))
      show "set (begin_ids rest) \<inter> (dom (requests st1) \<union> set (dispatched st1)) = {}"
        using same ids(2) by auto
    qed
  next
    case emit
    from Cons.prems(4,5) emit(1) rec have
      ids: "distinct (begin_ids rest)"
        "set (begin_ids rest) \<inter> (dom (requests st) \<union> set (dispatched st)) = {}"
      by (auto simp: begin_ids_Cons)
    have new: "?rid \<notin> set (dispatched st)"
      using emit(3) Cons.prems(3) by auto
    show ?thesis
    proof (rule Cons.IH [OF more])
      show "distinct (dispatched st1)" using emit(5) Cons.prems(2) new by simp
      show "dom (requests st1) \<inter> set (dispatched st1) = {}"
        using emit Cons.prems(3) by auto
      show "distinct (begin_ids rest)" by (rule ids(1))
      show "set (begin_ids rest) \<inter> (dom (requests st1) \<union> set (dispatched st1)) = {}"
        using emit ids(2) by auto
    qed
  qed
qed

lemma tryHandleRequest_keeps_none_ready:
  assumes "tryHandleRequest st rid = Inr st'"
    and "\<forall>other req. other \<noteq> rid \<longrightarrow> requests st other = Some req \<longrightarrow> \<not> isReady req"
  shows "\<forall>other req. requests st' other = Some req \<longrightarrow> \<not> isReady req"
proof (intro allI impI)
  fix other req
  assume pending: "requests st' other = Some req"
  from tryHandleRequest_shape [OF assms(1)] show "\<not> isReady req"
  proof
    assume "st' = st \<and> (\<forall>req. requests st rid = Some req \<longrightarrow> \<not> isReady req)"
    with pending assms(2) show ?thesis by (cases "other = rid") auto
  next
    assume "\<exists>req. requests st rid = Some req \<and> isReady req \<and>
            requests st' = (requests st)(rid := None) \<and>
            dispatched st' = dispatched st @ [rid]"
    then have "requests st' = (requests st)(rid := None)" by blast
    with pending assms(2) show ?thesis by (cases "other = rid") auto
  qed
qed

lemma processRecord_keeps_none_ready:
  assumes "processRecord opts st header content = Inr st'"
    and "\<forall>rid req. requests st rid = Some req \<longrightarrow> \<not> isReady req"
  shows "\<forall>rid req. requests st' rid = Some req \<longrightarrow> \<not> isReady req"
proof -
  let ?rid = "h_requestId header"
  consider (bgn) "h_type header = FCGI_BEGIN_REQUEST"
    | (params) "h_type header = FCGI_PARAMS"
    | (stdin) "h_type header = FCGI_STDIN"
    | (other) "h_type header \<noteq> FCGI_BEGIN_REQUEST" "h_type header \<noteq> FCGI_PARAMS"
        "h_type header \<noteq> FCGI_STDIN"
    by blast
  then show ?thesis
  proof cases
    case bgn
    with assms show ?thesis
      by (auto simp: processRecord_def Let_def isReady_def FCGIRequest_new_def
            split: sum.splits if_splits)
  next
    case params
    then have nb: "h_type header \<noteq> FCGI_BEGIN_REQUEST"
      by (simp add: FCGI_PARAMS_def FCGI_BEGIN_REQUEST_def)
    from assms(1) params nb obtain st0 where
      t: "tryHandleRequest st0 ?rid = Inr st'" and
      o: "\<forall>other. other \<noteq> ?rid \<longrightarrow> requests st0 other = requests st other"
      by (auto simp: processRecord_def Let_def split: option.splits sum.splits)
    show ?thesis
      by (rule tryHandleRequest_keeps_none_ready [OF t]) (use o assms(2) in auto)
  next
    case stdin
    then have nb: "h_type header \<noteq> FCGI_BEGIN_REQUEST" "h_type header \<noteq> FCGI_PARAMS"
      by (simp_all add: FCGI_STDIN_def FCGI_PARAMS_def FCGI_BEGIN_REQUEST_def)
    from assms(1) stdin nb obtain st0 where
      t: "tryHandleRequest st0 ?rid = Inr st'" and
      o: "\<forall>other. other \<noteq> ?rid \<longrightarrow> requests st0 other = requests st other"
      by (auto simp: processRecord_def Let_def split: option.splits sum.splits)
    show ?thesis
      by (rule tryHandleRequest_keeps_none_ready [OF t]) (use o assms(2) in auto)
  next
    case other
    with assms show ?thesis
      by (auto simp: processRecord_def Let_def split: sum.splits if_splits)
  qed
qed

text \<open>
  On a well-formed stream that is processed without an exception, the requests dispatched
  are the terminated ones, each once.
\<close>

lemma tryHandleRequest_frame:
  "tryHandleRequest st rid = Inr st' \<Longrightarrow> other \<noteq> rid \<Longrightarrow>
   requests st' other = requests st other"
  by (auto simp: tryHandleRequest_def Let_def split: option.splits if_splits sum.splits)

lemma processRecord_frame:
  assumes "processRecord opts st header content = Inr st'"
    and "other \<noteq> h_requestId header"
  shows "requests st' other = requests st other"
  using assms
  by (auto simp: processRecord_def Let_def dest!: tryHandleRequest_frame
        split: option.splits if_splits sum.splits)

lemma addParams_flags:
  "addParams req content = Inr req' \<Longrightarrow>
   req_paramsComplete req' = (req_paramsComplete req \<or> content = []) \<and>
   req_stdinComplete req' = req_stdinComplete req"
  by (auto simp: addParams_def split: if_splits sum.splits)

lemma addStdin_flags:
  "req_paramsComplete (addStdin req content) = req_paramsComplete req \<and>
   req_stdinComplete (addStdin req content) = (req_stdinComplete req \<or> content = [])"
  by (auto simp: addStdin_def)

text \<open>The effect of one record on the pending request of its id.\<close>

lemma processRecord_begin:
  assumes "processRecord opts st header content = Inr st'"
    and "h_type header = FCGI_BEGIN_REQUEST"
  shows "\<exists>req. requests st' (h_requestId header) = Some req \<and>
           \<not> req_paramsComplete req \<and> \<not> req_stdinComplete req"
  using assms
  by (auto simp: processRecord_def Let_def FCGIRequest_new_def split: sum.splits)

lemma processRecord_feed:
  assumes "processRecord opts st header content = Inr st'"
    and "h_type header = FCGI_PARAMS \<or> h_type header = FCGI_STDIN"
    and "requests st (h_requestId header) = Some req"
    and "\<not> isReady req"
  shows "let p = (req_paramsComplete req \<or> (h_type header = FCGI_PARAMS \<and> content = []));
             s = (req_stdinComplete req \<or> (h_type header = FCGI_STDIN \<and> content = []))
         in if p \<and> s
            then requests st' (h_requestId header) = None \<and>
                 dispatched st' = dispatched st @ [h_requestId header]
            else (\<exists>req'. requests st' (h_requestId header) = Some req' \<and>
                    req_paramsComplete req' = p \<and> req_stdinComplete req' = s) \<and>
                 dispatched st' = dispatched st"
proof -
  let ?rid = "h_requestId header"
  have types: "FCGI_PARAMS \<noteq> FCGI_BEGIN_REQUEST" "FCGI_STDIN \<noteq> FCGI_BEGIN_REQUEST"
    "FCGI_STDIN \<noteq> FCGI_PARAMS"
    by (simp_all add: FCGI_PARAMS_def FCGI_BEGIN_REQUEST_def FCGI_STDIN_def)
  from assms(2) show ?thesis
  proof
    assume ty: "h_type header = FCGI_PARAMS"
    with assms(1,3) types obtain req' where
      fed: "addParams req content = Inr req'" and
      t: "tryHandleRequest (st\<lparr>requests := (requests st)(?rid \<mapsto> req')\<rparr>) ?rid = Inr st'"
      by (auto simp: processRecord_def Let_def split: sum.splits)
    from addParams_flags [OF fed] tryHandleRequest_shape [OF t] ty types show ?thesis
      by (auto simp: Let_def isReady_def dispatched_def)
  next
    assume ty: "h_type header = FCGI_STDIN"
    with assms(1,3) types have
      t: "tryHandleRequest (st\<lparr>requests := (requests st)(?rid \<mapsto> addStdin req content)\<rparr>) ?rid
            = Inr st'"
      by (auto simp: processRecord_def Let_def split: sum.splits)
    from addStdin_flags [of req content] tryHandleRequest_shape [OF t] ty types show ?thesis
      by (auto simp: Let_def isReady_def dispatched_def)
  qed
qed

lemma processRecord_feed_none:
  assumes "processRecord opts st header content = Inr st'"
    and "h_type header = FCGI_PARAMS \<or> h_type header = FCGI_STDIN"
    and "requests st (h_requestId header) = None"
  shows "st' = st"
  using assms processRecord_no_entry [of st header opts content] by auto

lemma list_ex_other:
  "rid \<noteq> h_requestId (fst item) \<Longrightarrow>
   list_ex (is_end_of ty rid) (item # rest) = list_ex (is_end_of ty rid) rest"
  by (auto simp: is_end_of_def)

lemma terminated_skip:
  "\<not> (h_type (fst item) = FCGI_BEGIN_REQUEST \<and> h_requestId (fst item) = rid) \<Longrightarrow>
   terminated (item # rest) rid = terminated rest rid"
  by (auto simp: terminated_def)

lemma terminated_begin:
  "h_type (fst item) = FCGI_BEGIN_REQUEST \<Longrightarrow> h_requestId (fst item) = rid \<Longrightarrow>
   terminated (item # rest) rid =
     (list_ex (is_end_of FCGI_PARAMS rid) rest \<and> list_ex (is_end_of FCGI_STDIN rid) rest)"
  by (simp add: terminated_def)

lemma expect_step:
  assumes one: "processRecord opts st header content = Inr st1"
    and ty: "h_type header = FCGI_BEGIN_REQUEST \<or> h_type header = FCGI_PARAMS \<or>
             h_type header = FCGI_STDIN"
    and none_ready: "\<forall>rid req. requests st rid = Some req \<longrightarrow> \<not> isReady req"
    and fresh: "h_type header = FCGI_BEGIN_REQUEST \<longrightarrow> requests st (h_requestId header) = None"
  shows "(rid \<in> set (dispatched st1) \<or> expect st1 rest rid) =
         (rid \<in> set (dispatched st) \<or> expect st ((header, content) # rest) rid)"
proof (cases "rid = h_requestId header")
  case False
  have types: "FCGI_PARAMS \<noteq> FCGI_BEGIN_REQUEST" "FCGI_STDIN \<noteq> FCGI_BEGIN_REQUEST"
    by (simp_all add: FCGI_PARAMS_def FCGI_BEGIN_REQUEST_def FCGI_STDIN_def)
  have same: "requests st1 rid = requests st rid"
    using processRecord_frame [OF one False] .
  have disp: "rid \<in> set (dispatched st1) \<longleftrightarrow> rid \<in> set (dispatched st)"
    using processRecord_shape [OF one] False by auto
  have skip: "list_ex (is_end_of ty rid) ((header, content) # rest) =
                list_ex (is_end_of ty rid) rest" for ty
    using False by (auto simp: is_end_of_def)
  have skip': "terminated ((header, content) # rest) rid = terminated rest rid"
    using False by (simp add: terminated_skip)
  have "expect st1 rest rid = expect st ((header, content) # rest) rid"
    unfolding expect_def same skip skip' by (rule refl)
  with disp show ?thesis by simp
next
  case True
  have types: "FCGI_PARAMS \<noteq> FCGI_BEGIN_REQUEST" "FCGI_STDIN \<noteq> FCGI_BEGIN_REQUEST"
    "FCGI_STDIN \<noteq> FCGI_PARAMS"
    by (simp_all add: FCGI_PARAMS_def FCGI_BEGIN_REQUEST_def FCGI_STDIN_def)
  show ?thesis
  proof (cases "h_type header = FCGI_BEGIN_REQUEST")
    case bgn: True
    from processRecord_begin [OF one bgn] obtain req where
      req: "requests st1 rid = Some req" "\<not> req_paramsComplete req" "\<not> req_stdinComplete req"
      using True by blast
    have disp: "dispatched st1 = dispatched st"
      using processRecord_shape [OF one] bgn by auto
    have "requests st rid = None" using fresh bgn True by simp
    then have "expect st ((header, content) # rest) rid =
      (list_ex (is_end_of FCGI_PARAMS rid) rest \<and> list_ex (is_end_of FCGI_STDIN rid) rest)"
      using bgn True by (simp add: expect_def terminated_begin)
    moreover have "expect st1 rest rid =
      (list_ex (is_end_of FCGI_PARAMS rid) rest \<and> list_ex (is_end_of FCGI_STDIN rid) rest)"
      using req by (simp add: expect_def)
    ultimately show ?thesis using disp by simp
  next
    case feed: False
    with ty have ty': "h_type header = FCGI_PARAMS \<or> h_type header = FCGI_STDIN" by blast
    show ?thesis
    proof (cases "requests st rid")
      case None
      then have "st1 = st"
        using processRecord_feed_none [OF one ty'] True by simp
      moreover have "expect st ((header, content) # rest) rid = expect st rest rid"
        using None feed by (simp add: expect_def terminated_skip)
      ultimately show ?thesis by simp
    next
      case (Some req)
      then have nr: "\<not> isReady req" using none_ready by blast
      define p where "p = (req_paramsComplete req \<or> (h_type header = FCGI_PARAMS \<and> content = []))"
      define s where "s = (req_stdinComplete req \<or> (h_type header = FCGI_STDIN \<and> content = []))"
      have here: "is_end_of ty rid (header, content) = (h_type header = ty \<and> content = [])" for ty
        using True by (auto simp: is_end_of_def)
      have before: "expect st ((header, content) # rest) rid =
          ((p \<or> list_ex (is_end_of FCGI_PARAMS rid) rest) \<and>
           (s \<or> list_ex (is_end_of FCGI_STDIN rid) rest))"
        by (simp add: expect_def Some here p_def s_def)
      have fed: "if p \<and> s
            then requests st1 rid = None \<and> dispatched st1 = dispatched st @ [rid]
            else (\<exists>req'. requests st1 rid = Some req' \<and>
                    req_paramsComplete req' = p \<and> req_stdinComplete req' = s) \<and>
                 dispatched st1 = dispatched st"
        using processRecord_feed [OF one ty' _ nr] Some True
        by (simp add: Let_def p_def s_def)
      show ?thesis
      proof (cases "p \<and> s")
        case True
        with fed have "rid \<in> set (dispatched st1)" by simp
        moreover from True before have "expect st ((header, content) # rest) rid" by simp
        ultimately show ?thesis by simp
      next
        case False
        with fed obtain req' where
          req': "requests st1 rid = Some req'" "req_paramsComplete req' = p"
            "req_stdinComplete req' = s" and
          disp: "dispatched st1 = dispatched st"
          by auto
        have "expect st1 rest rid =
          ((p \<or> list_ex (is_end_of FCGI_PARAMS rid) rest) \<and>
           (s \<or> list_ex (is_end_of FCGI_STDIN rid) rest))"
          by (simp add: expect_def req')
        with before disp show ?thesis by simp
      qed
    qed
  qed
qed

lemma begin_ids_set_Cons:
  "set (begin_ids (item # rest)) =
     (if h_type (fst item) = FCGI_BEGIN_REQUEST then {h_requestId (fst item)} else {}) \<union>
     set (begin_ids rest)"
  by (cases item) (simp add: begin_ids_def)

lemma begin_ids_distinct_tail:
  "distinct (begin_ids (item # rest)) \<Longrightarrow> distinct (begin_ids rest)"
  by (cases item) (simp add: begin_ids_def split: if_splits)

lemma begin_ids_fresh:
  "distinct (begin_ids (item # rest)) \<Longrightarrow> h_type (fst item) = FCGI_BEGIN_REQUEST \<Longrightarrow>
   h_requestId (fst item) \<notin> set (begin_ids rest)"
  by (cases item) (simp add: begin_ids_def)

lemma process_all_dispatched:
  assumes "process_all opts st records = Inr st'"
    and "well_formed records"
    and "\<forall>rid req. requests st rid = Some req \<longrightarrow> \<not> isReady req"
    and "set (begin_ids records) \<inter> dom (requests st) = {}"
  shows "set (dispatched st') = set (dispatched st) \<union> {rid. expect st records rid}"
  using assms
proof (induction records arbitrary: st)
  case Nil
  then have "st' = st" by simp
  moreover have "\<not> expect st [] rid" for rid
  proof (cases "requests st rid")
    case None
    then show ?thesis by (simp add: expect_def terminated_def)
  next
    case (Some req)
    with Nil.prems(3) have "\<not> isReady req" by blast
    with Some show ?thesis by (simp add: expect_def isReady_def)
  qed
  ultimately show ?case by simp
next
  case (Cons item rest)
  obtain header content where item: "item = (header, content)" by (cases item)
  have hd: "fst item = header" by (simp add: item)
  from Cons.prems(1) obtain st1 where
    one: "processRecord opts st header content = Inr st1" and
    more: "process_all opts st1 rest = Inr st'"
    unfolding item by (auto split: sum.splits)
  from Cons.prems(2) have
    dist: "distinct (begin_ids (item # rest))" and
    all: "list_all (\<lambda>item. h_type (fst item) = FCGI_BEGIN_REQUEST \<or>
                        h_type (fst item) = FCGI_PARAMS \<or>
                        h_type (fst item) = FCGI_STDIN) (item # rest)"
    unfolding well_formed_def by blast+
  from all have
    ty: "h_type header = FCGI_BEGIN_REQUEST \<or> h_type header = FCGI_PARAMS \<or>
         h_type header = FCGI_STDIN" and
    all_rest: "list_all (\<lambda>item. h_type (fst item) = FCGI_BEGIN_REQUEST \<or>
                        h_type (fst item) = FCGI_PARAMS \<or>
                        h_type (fst item) = FCGI_STDIN) rest"
    by (simp_all add: hd)
  have wf: "well_formed rest"
    unfolding well_formed_def
    using begin_ids_distinct_tail [OF dist] all_rest by (rule conjI)
  have fresh_ids:
    "h_type header = FCGI_BEGIN_REQUEST \<longrightarrow> h_requestId header \<notin> set (begin_ids rest)"
    using begin_ids_fresh [OF dist] unfolding hd by blast
  have ids_Cons:
    "((if h_type header = FCGI_BEGIN_REQUEST then {h_requestId header} else {}) \<union>
      set (begin_ids rest)) \<inter> dom (requests st) = {}"
    using Cons.prems(4) unfolding begin_ids_set_Cons hd .
  have ids: "set (begin_ids rest) \<inter> dom (requests st) = {}"
    using ids_Cons by blast
  have fresh: "h_type header = FCGI_BEGIN_REQUEST \<longrightarrow> requests st (h_requestId header) = None"
  proof
    assume "h_type header = FCGI_BEGIN_REQUEST"
    with ids_Cons have "h_requestId header \<notin> dom (requests st)" by simp
    then show "requests st (h_requestId header) = None" by blast
  qed
  have nr1: "\<forall>rid req. requests st1 rid = Some req \<longrightarrow> \<not> isReady req"
    by (rule processRecord_keeps_none_ready [OF one Cons.prems(3)])
  from processRecord_shape [OF one] have shape:
    "dom (requests st1) \<subseteq> dom (requests st) \<or>
     (h_type header = FCGI_BEGIN_REQUEST \<and>
      dom (requests st1) = insert (h_requestId header) (dom (requests st)))"
    by blast
  have ids1: "set (begin_ids rest) \<inter> dom (requests st1) = {}"
  proof -
    have "x \<notin> dom (requests st1)" if x: "x \<in> set (begin_ids rest)" for x
    proof -
      have nx: "x \<notin> dom (requests st)"
        using ids x by (simp add: disjoint_iff)
      from shape show ?thesis
      proof
        assume "dom (requests st1) \<subseteq> dom (requests st)"
        then show ?thesis using nx by (rule contra_subsetD)
      next
        assume bgn: "h_type header = FCGI_BEGIN_REQUEST \<and>
          dom (requests st1) = insert (h_requestId header) (dom (requests st))"
        with fresh_ids have "h_requestId header \<notin> set (begin_ids rest)" by blast
        with x have "x \<noteq> h_requestId header" by blast
        with bgn nx show ?thesis by simp
      qed
    qed
    then show ?thesis by (simp add: disjoint_iff)
  qed
  have "set (dispatched st') = set (dispatched st1) \<union> {rid. expect st1 rest rid}"
    by (rule Cons.IH [OF more wf nr1 ids1])
  also have "\<dots> = set (dispatched st) \<union> {rid. expect st (item # rest) rid}"
  proof (rule set_eqI)
    fix rid
    show "rid \<in> set (dispatched st1) \<union> {rid. expect st1 rest rid} \<longleftrightarrow>
          rid \<in> set (dispatched st) \<union> {rid. expect st (item # rest) rid}"
      using expect_step [OF one ty Cons.prems(3) fresh, of rid rest]
      unfolding item by simp
  qed
  finally show ?case .
qed

lemma process_all_dispatches_terminated:
  assumes "process_all opts st records = Inr st'"
    and "well_formed records"
    and "requests st = Map.empty"
    and "emitted st = []"
  shows "set (dispatched st') = {rid. terminated records rid} \<and> distinct (dispatched st')"
proof -
  have "set (dispatched st') = set (dispatched st) \<union> {rid. expect st records rid}"
    using assms by (intro process_all_dispatched) simp_all
  moreover have "distinct (dispatched st')"
    using assms
    by (intro process_all_dispatches_once [of opts st records st'])
       (simp_all add: dispatched_def well_formed_def)
  ultimately show ?thesis
    using assms(3,4) by (simp add: dispatched_def expect_def)
qed

text \<open>
  Claim C1, at two well-formed record streams on which the dispatch is lost. Both are
  \<^verbatim>\<open>BEGIN_REQUEST(1)\<close> (responder), one \<^verbatim>\<open>PARAMS(1)\<close> record with one pair, the empty
  \<^verbatim>\<open>PARAMS(1)\<close> and the empty \<^verbatim>\<open>STDIN(1)\<close>. With the pair \<^verbatim>\<open>HTTP_COOKIE = a=%\<close>,
  \<^verbatim>\<open>parseCookies\<close> throws a \<^verbatim>\<open>URIError\<close> (\<^verbatim>\<open>decodeURIComponent('%')\<close>); with the pair
  \<^verbatim>\<open>QUERY_STRING = a=1&a[]=2\<close>, \<^verbatim>\<open>parseQueryString\<close> throws a \<^verbatim>\<open>TypeError\<close>. Either way
  the exception leaves \<^verbatim>\<open>_tryHandleRequest\<close> after the entry was deleted from the map and
  before \<^verbatim>\<open>emit\<close>: both streams of request 1 are terminated, the entry is gone, and no
  \<^verbatim>\<open>'request'\<close> event was emitted.
\<close>

theorem dispatch_lost_on_exception:
  "(case connection_loop \<lparr>maxConns = 100, maxReqs = 100\<rparr>
           (map of_nat [1, 1, 0, 1, 0, 8, 0, 0,   0, 1, 0, 0, 0, 0, 0, 0,
                        1, 4, 0, 1, 0, 16, 0, 0,  11, 3] @
            Buffer_from ''HTTP_COOKIEa=%'' @
            map of_nat [1, 4, 0, 1, 0, 0, 0, 0,
                        1, 5, 0, 1, 0, 0, 0, 0])
           \<lparr>requests = Map.empty, conn_socket = [], emitted = []\<rparr> of
      Inl (e, rest, st) \<Rightarrow>
        e = URIError \<and> rest = [] \<and> requests st 1 = None \<and> emitted st = [] \<and>
        conn_socket st = []
    | Inr conn \<Rightarrow> False) \<and>
   (case connection_loop \<lparr>maxConns = 100, maxReqs = 100\<rparr>
           (map of_nat [1, 1, 0, 1, 0, 8, 0, 0,   0, 1, 0, 0, 0, 0, 0, 0,
                        1, 4, 0, 1, 0, 23, 1, 0,  12, 9] @
            Buffer_from ''QUERY_STRINGa=1&a[]=2'' @
            map of_nat [0,
                        1, 4, 0, 1, 0, 0, 0, 0,
                        1, 5, 0, 1, 0, 0, 0, 0])
           \<lparr>requests = Map.empty, conn_socket = [], emitted = []\<rparr> of
      Inl (e, rest, st) \<Rightarrow>
        e = TypeError \<and> rest = [] \<and> requests st 1 = None \<and> emitted st = [] \<and>
        conn_socket st = []
    | Inr conn \<Rightarrow> False)"
  by code_simp

end
